theory Spec2Isabelle
  imports Complex_Main "HOL-Library.Sublist"
begin

section \<open>Media generation service: shared vocabulary\<close>

text \<open>
  Exceptions of the Python sources are values. \<open>HTTPException\<close> carries the status code
  and the detail text of \<open>fastapi.HTTPException\<close>; \<open>BackendFailure\<close> stands for any
  exception raised inside an external library (diffusers, torch, huggingface_hub, PIL),
  carrying its \<open>str(e)\<close>.
\<close>

datatype error =
    ValueError string
  | KeyError string
  | IndexError string
  | ZeroDivisionError
  | OSError string
  | HTTPException nat string
  | BackendFailure string

text \<open>\<open>str(e)\<close> as the \<open>except Exception as e\<close> handlers of the server format it.\<close>

fun str_of_error :: "error \<Rightarrow> string" where
  "str_of_error (ValueError m) = m"
| "str_of_error (KeyError k) = [CHR 0x27] @ k @ [CHR 0x27]"
| "str_of_error (IndexError m) = m"
| "str_of_error ZeroDivisionError = ''division by zero''"
| "str_of_error (OSError m) = m"
| "str_of_error (HTTPException c d) = d"
| "str_of_error (BackendFailure m) = m"

text \<open>
  Python's \<open>x or y\<close> on an optional string: \<open>None\<close> and the empty string are both falsy.
\<close>

definition or_str :: "string option \<Rightarrow> string \<Rightarrow> string" where
  "or_str x d = (case x of None \<Rightarrow> d | Some s \<Rightarrow> if s = [] then d else s)"

section \<open>downloader.py: DownloadProgress\<close>

record DownloadProgress =
  model_id :: string
  total_bytes :: int
  downloaded_bytes :: int
  current_file :: string
  files_completed :: int
  files_total :: int

text \<open>
  Python's true division \<open>a / b\<close> on integers raises \<open>ZeroDivisionError\<close> when
  \<open>b = 0\<close>. The quotient is taken in the reals: the rounding of the float result is
  not modelled.
\<close>

definition truediv :: "int \<Rightarrow> int \<Rightarrow> error + real" where
  "truediv a b = (if b = 0 then Inl ZeroDivisionError else Inr (real_of_int a / real_of_int b))"

definition percentage :: "DownloadProgress \<Rightarrow> error + real" where
  "percentage p =
     (if total_bytes p = 0 then Inr 0
      else (case truediv (downloaded_bytes p) (total_bytes p) of
              Inl e \<Rightarrow> Inl e
            | Inr q \<Rightarrow> Inr (q * 100)))"

section \<open>image/flux\_wrapper.py and video/ltx\_wrapper.py: construction\<close>

text \<open>What the wrappers ask of torch when they pick a device and a precision.\<close>

record torch_env =
  cuda_available :: bool
  mps_available :: bool
  bf16_supported :: bool

datatype dtype = bfloat16 | float16 | float32

definition detect_device :: "torch_env \<Rightarrow> string" where
  "detect_device t =
     (if cuda_available t then ''cuda''
      else if mps_available t then ''mps''
      else ''cpu'')"

definition get_optimal_dtype :: "torch_env \<Rightarrow> string \<Rightarrow> dtype" where
  "get_optimal_dtype t dev =
     (if dev = ''cuda'' then (if bf16_supported t then bfloat16 else float16)
      else if dev = ''mps'' then float16
      else float32)"

definition FLUX_MODELS :: "(string \<times> string) list" where
  "FLUX_MODELS =
     [(''schnell'', ''black-forest-labs/FLUX.1-schnell''),
      (''dev'', ''black-forest-labs/FLUX.1-dev'')]"

definition DISTILLED_MODEL :: string where
  "DISTILLED_MODEL = ''Lightricks/LTX-Video-0.9.8-distilled''"

text \<open>
  \<open>repr\<close> of a list of strings, as the f-string of \<open>FluxWrapper.__init__\<close> prints
  \<open>list(FLUX_MODELS.keys())\<close>. The keys hold no quote and no escape, so \<open>repr\<close> of a
  key is the key between single quotes.
\<close>

definition repr_str :: "string \<Rightarrow> string" where
  "repr_str s = [CHR 0x27] @ s @ [CHR 0x27]"

fun join :: "string \<Rightarrow> string list \<Rightarrow> string" where
  "join sep [] = []"
| "join sep [x] = x"
| "join sep (x # y # ys) = x @ sep @ join sep (y # ys)"

definition repr_str_list :: "string list \<Rightarrow> string" where
  "repr_str_list xs = ''['' @ join '', '' (map repr_str xs) @ '']''"

record FluxWrapper =
  model_variant :: string
  flux_model_id :: string
  flux_device :: string
  flux_dtype :: dtype
  flux_enable_cpu_offload :: bool
  flux_pipeline_loaded :: bool

definition FluxWrapper_init ::
  "torch_env \<Rightarrow> string \<Rightarrow> string option \<Rightarrow> dtype option \<Rightarrow> bool \<Rightarrow> error + FluxWrapper" where
  "FluxWrapper_init t variant device dt offload =
     (case map_of FLUX_MODELS variant of
        None \<Rightarrow>
          Inl (ValueError (''Unknown model variant: '' @ variant @ ''. Choose from: ''
                 @ repr_str_list (map fst FLUX_MODELS)))
      | Some mid \<Rightarrow>
          (let dev = or_str device (detect_device t);
               d = (case dt of None \<Rightarrow> get_optimal_dtype t dev | Some x \<Rightarrow> x)
           in Inr \<lparr>model_variant = variant, flux_model_id = mid, flux_device = dev,
                   flux_dtype = d, flux_enable_cpu_offload = offload,
                   flux_pipeline_loaded = False\<rparr>))"

record LTXVideoWrapper =
  ltx_model_id :: string
  ltx_device :: string
  ltx_dtype :: dtype
  ltx_enable_cpu_offload :: bool
  text2video_loaded :: bool
  img2video_loaded :: bool

text \<open>
  \<open>LTXVideoWrapper.__init__\<close> stores the identifier it is given ("HuggingFace model ID or
  local path") and checks nothing.
\<close>

definition LTXVideoWrapper_init ::
  "torch_env \<Rightarrow> string \<Rightarrow> string option \<Rightarrow> dtype option \<Rightarrow> bool \<Rightarrow> error + LTXVideoWrapper" where
  "LTXVideoWrapper_init t mid device dt offload =
     (let dev = or_str device (detect_device t);
          d = (case dt of None \<Rightarrow> get_optimal_dtype t dev | Some x \<Rightarrow> x)
      in Inr \<lparr>ltx_model_id = mid, ltx_device = dev, ltx_dtype = d,
              ltx_enable_cpu_offload = offload,
              text2video_loaded = False, img2video_loaded = False\<rparr>)"

section \<open>Strings of the Python runtime\<close>

text \<open>\<open>str(n)\<close> for a non-negative integer: its decimal digits, most significant first.\<close>

definition digit_char :: "nat \<Rightarrow> char" where
  "digit_char d = char_of (48 + d)"

function str_nat :: "nat \<Rightarrow> string" where
  "str_nat n = (if n < 10 then [digit_char n] else str_nat (n div 10) @ [digit_char (n mod 10)])"
  by pat_completeness auto
termination
  by (relation "measure id") auto

declare str_nat.simps [simp del]

definition str_int :: "int \<Rightarrow> string" where
  "str_int i = (if i < 0 then ''-'' @ str_nat (nat (- i)) else str_nat (nat i))"

text \<open>The value a digit string denotes; used to show that \<open>str_nat\<close> loses nothing.\<close>

definition digits_value :: "string \<Rightarrow> nat" where
  "digits_value s = foldl (\<lambda>a c. 10 * a + (of_char c - 48)) 0 s"

text \<open>
  \<open>str.rfind\<close> for a one-character needle: the highest index where it occurs, or \<open>-1\<close>.
\<close>

fun find_last :: "char \<Rightarrow> string \<Rightarrow> nat \<Rightarrow> int \<Rightarrow> int" where
  "find_last c [] i acc = acc"
| "find_last c (x # xs) i acc = find_last c xs (Suc i) (if x = c then int i else acc)"

definition rfind :: "string \<Rightarrow> char \<Rightarrow> int" where
  "rfind p c = find_last c p 0 (- 1)"

text \<open>
  \<open>os.path.splitext\<close> on POSIX (\<open>genericpath._splitext\<close> with separator \<open>/\<close>, no
  alternative separator, extension separator \<open>.\<close>). The inner loop skips the leading
  dots of the last component; the first other character before the last dot makes the
  split.
\<close>

function skip_leading_dots :: "string \<Rightarrow> nat \<Rightarrow> nat \<Rightarrow> string \<times> string" where
  "skip_leading_dots p filenameIndex dotIndex =
     (if filenameIndex < dotIndex then
        (if p ! filenameIndex \<noteq> CHR ''.'' then (take dotIndex p, drop dotIndex p)
         else skip_leading_dots p (Suc filenameIndex) dotIndex)
      else (p, []))"
  by pat_completeness auto
termination
  by (relation "measure (\<lambda>(p, f, d). d - f)") auto

declare skip_leading_dots.simps [simp del]

definition splitext :: "string \<Rightarrow> string \<times> string" where
  "splitext p =
     (let sepIndex = rfind p CHR ''/'';
          dotIndex = rfind p CHR ''.''
      in if dotIndex > sepIndex
         then skip_leading_dots p (nat (sepIndex + 1)) (nat dotIndex)
         else (p, []))"

section \<open>image/flux\_wrapper.py: generate\_image\<close>

record ImageGenerationConfig =
  prompt :: string
  negative_prompt :: string
  width :: int
  height :: int
  num_inference_steps :: int
  guidance_scale :: real
  seed :: "int option"
  output_path :: "string option"
  num_images :: int

text \<open>The keyword arguments of the call \<open>pipeline(...)\<close>.\<close>

record pipeline_args =
  arg_prompt :: string
  arg_width :: int
  arg_height :: int
  arg_num_inference_steps :: int
  arg_guidance_scale :: real
  arg_generator_seed :: "int option"
  arg_num_images_per_prompt :: int

text \<open>
  The external collaborators of the image backend: the outcome of
  \<open>FluxPipeline.from_pretrained\<close>, of moving the pipeline to its device (or enabling CPU
  offload), of the inference call (an exception, or the number of images in
  \<open>output.images\<close>) and of \<open>image.save(path)\<close>. Building the seeded generator
  counts as part of the inference call.
\<close>

record flux_backend =
  from_pretrained :: "error option"
  place_on_device :: "error option"
  run_pipeline :: "pipeline_args \<Rightarrow> error + nat"
  image_save :: "string \<Rightarrow> error option"

text \<open>\<open>Union[str, List[str]]\<close>, the return type of \<open>generate_image\<close>.\<close>

datatype gen_result = Single string | Many "string list"

definition load_pipeline :: "flux_backend \<Rightarrow> FluxWrapper \<Rightarrow> error option \<times> FluxWrapper" where
  "load_pipeline b w =
     (if flux_pipeline_loaded w then (None, w)
      else (case from_pretrained b of
              Some e \<Rightarrow> (Some e, w)
            | None \<Rightarrow> (place_on_device b, w\<lparr>flux_pipeline_loaded := True\<rparr>)))"

text \<open>The \<open>if\<close>/\<open>elif\<close> on the variant; any other variant keeps the requested values.\<close>

definition variant_params :: "string \<Rightarrow> int \<Rightarrow> real \<Rightarrow> int \<times> real" where
  "variant_params variant num_steps guidance =
     (if variant = ''schnell'' then (min num_steps 4, 0)
      else if variant = ''dev'' then (max num_steps 20, max guidance 3.5)
      else (num_steps, guidance))"

definition pipeline_call :: "FluxWrapper \<Rightarrow> ImageGenerationConfig \<Rightarrow> pipeline_args" where
  "pipeline_call w c =
     (let (num_steps, guidance) =
            variant_params (model_variant w) (num_inference_steps c) (guidance_scale c)
      in \<lparr>arg_prompt = prompt c, arg_width = width c, arg_height = height c,
           arg_num_inference_steps = num_steps, arg_guidance_scale = guidance,
           arg_generator_seed = seed c, arg_num_images_per_prompt = num_images c\<rparr>)"

text \<open>\<open>config.seed or 'random'\<close> inside an f-string: \<open>None\<close> and \<open>0\<close> are falsy.\<close>

definition seed_or_random :: "int option \<Rightarrow> string" where
  "seed_or_random s = (case s of None \<Rightarrow> ''random'' | Some n \<Rightarrow> if n = 0 then ''random'' else str_int n)"

text \<open>The file name of the \<open>i\<close>-th image, the body of the loop over \<open>output.images\<close>.\<close>

definition image_path :: "ImageGenerationConfig \<Rightarrow> nat \<Rightarrow> string" where
  "image_path c i =
     (if num_images c = 1 then
        or_str (output_path c) (''output_'' @ seed_or_random (seed c) @ ''.png'')
      else
        (let base = or_str (output_path c) (''output_'' @ seed_or_random (seed c));
             (name, ext) = splitext base
         in name @ ''_'' @ str_nat i @ (if ext = [] then ''.png'' else ext)))"

text \<open>Saving in order; the first failing save raises and ends the loop.\<close>

fun save_images :: "(string \<Rightarrow> error option) \<Rightarrow> string list \<Rightarrow> error + string list" where
  "save_images sv [] = Inr []"
| "save_images sv (p # ps) =
     (case sv p of
        Some e \<Rightarrow> Inl e
      | None \<Rightarrow> (case save_images sv ps of Inl e \<Rightarrow> Inl e | Inr qs \<Rightarrow> Inr (p # qs)))"

definition generate_image ::
  "flux_backend \<Rightarrow> FluxWrapper \<Rightarrow> ImageGenerationConfig \<Rightarrow> (error + gen_result) \<times> FluxWrapper" where
  "generate_image b w c =
     (case load_pipeline b w of
        (Some e, w') \<Rightarrow> (Inl e, w')
      | (None, w') \<Rightarrow>
          (case run_pipeline b (pipeline_call w' c) of
             Inl e \<Rightarrow> (Inl e, w')
           | Inr k \<Rightarrow>
               (case save_images (image_save b) (map (image_path c) [0..<k]) of
                  Inl e \<Rightarrow> (Inl e, w')
                | Inr output_paths \<Rightarrow>
                    (if num_images c = 1 then
                       (case output_paths of
                          [] \<Rightarrow> (Inl (IndexError ''list index out of range''), w')
                        | p # _ \<Rightarrow> (Inr (Single p), w'))
                     else (Inr (Many output_paths), w')))))"

section \<open>downloader.py: the model store on disk\<close>

text \<open>
  The part of the file system the downloader touches: a path is the list of its
  components below the working directory, and a path that exists is a directory or a
  file with its text. Symbolic links and permissions are not modelled.
\<close>

type_synonym path = "string list"

datatype node = Dir | File string

type_synonym filesystem = "path \<rightharpoonup> node"

definition is_file :: "filesystem \<Rightarrow> path \<Rightarrow> bool" where
  "is_file fs p = (case fs p of Some (File _) \<Rightarrow> True | _ \<Rightarrow> False)"

definition path_exists :: "filesystem \<Rightarrow> path \<Rightarrow> bool" where
  "path_exists fs p = (fs p \<noteq> None)"

text \<open>
  \<open>Path.mkdir(parents=True, exist_ok=True)\<close>: fails when the path or one of its
  ancestors is a file, otherwise makes every missing directory on the way.
\<close>

definition mkdir_parents :: "filesystem \<Rightarrow> path \<Rightarrow> error + filesystem" where
  "mkdir_parents fs p =
     (if list_ex (is_file fs) (tl (prefixes p)) then Inl (OSError ''FileExistsError'')
      else Inr (\<lambda>q. if q \<noteq> [] \<and> prefix q p \<and> fs q = None then Some Dir else fs q))"

text \<open>
  \<open>Path.write_text\<close>: fails on a directory and when the parent is not an existing
  directory (the working directory itself always is one).
\<close>

definition write_text :: "filesystem \<Rightarrow> path \<Rightarrow> string \<Rightarrow> error + filesystem" where
  "write_text fs p content =
     (if fs p = Some Dir then Inl (OSError ''IsADirectoryError'')
      else if butlast p \<noteq> [] \<and> fs (butlast p) \<noteq> Some Dir then Inl (OSError ''FileNotFoundError'')
      else Inr (fs(p \<mapsto> File content)))"

text \<open>
  \<open>shutil.rmtree\<close>: fails on a missing path and on a file, otherwise removes the
  directory with everything below it.
\<close>

definition rmtree :: "filesystem \<Rightarrow> path \<Rightarrow> error + filesystem" where
  "rmtree fs p =
     (case fs p of
        None \<Rightarrow> Inl (OSError ''FileNotFoundError'')
      | Some (File _) \<Rightarrow> Inl (OSError ''NotADirectoryError'')
      | Some Dir \<Rightarrow> Inr (\<lambda>q. if prefix p q then None else fs q))"

section \<open>downloader.py: catalog and ModelDownloader\<close>

record ModelInfo =
  mi_id :: string
  mi_name :: string
  repo_id :: string
  mi_type :: string
  size_gb :: real
  description :: string
  required_vram_gb :: real

definition AVAILABLE_MODELS :: "ModelInfo list" where
  "AVAILABLE_MODELS =
     [\<lparr>mi_id = ''ltx-video-distilled'', mi_name = ''LTX-Video 0.9.8 (Distilled)'',
        repo_id = ''Lightricks/LTX-Video-0.9.8-distilled'', mi_type = ''video'',
        size_gb = 8.5,
        description = ''Fast video generation, optimized for consumer GPUs'',
        required_vram_gb = 8\<rparr>,
      \<lparr>mi_id = ''ltx-video-full'', mi_name = ''LTX-Video 13B'',
        repo_id = ''Lightricks/LTX-Video'', mi_type = ''video'',
        size_gb = 26,
        description = ''Full quality video generation model'',
        required_vram_gb = 16\<rparr>,
      \<lparr>mi_id = ''flux-schnell'', mi_name = ''Flux.1 Schnell'',
        repo_id = ''black-forest-labs/FLUX.1-schnell'', mi_type = ''image'',
        size_gb = 12,
        description = ''Ultra-fast image generation (4 steps)'',
        required_vram_gb = 6\<rparr>,
      \<lparr>mi_id = ''flux-dev'', mi_name = ''Flux.1 Dev'',
        repo_id = ''black-forest-labs/FLUX.1-dev'', mi_type = ''image'',
        size_gb = 24,
        description = ''High quality image generation'',
        required_vram_gb = 12\<rparr>]"

definition get_model_info :: "string \<Rightarrow> ModelInfo option" where
  "get_model_info mid = find (\<lambda>m. mi_id m = mid) AVAILABLE_MODELS"

record ModelDownloader =
  models_dir :: path
  max_concurrent :: int
  active_downloads :: "string \<rightharpoonup> DownloadProgress"

text \<open>
  What the downloader acts on: the files, and the calls made to
  \<open>huggingface_hub.snapshot_download\<close> so far (repository and target directory), oldest
  first.
\<close>

record world =
  files :: filesystem
  transfer_log :: "(string \<times> path) list"

text \<open>
  \<open>snapshot_download\<close> itself is external: given the repository, the target directory
  and the files, it raises or not and leaves the files as it leaves them (a failed
  transfer may leave partial files).
\<close>

type_synonym transfer = "string \<Rightarrow> path \<Rightarrow> filesystem \<Rightarrow> error option \<times> filesystem"

definition model_dir_of :: "ModelDownloader \<Rightarrow> ModelInfo \<Rightarrow> string \<Rightarrow> path" where
  "model_dir_of dl m mid = models_dir dl @ [mi_type m, mid]"

definition marker_of :: "ModelDownloader \<Rightarrow> ModelInfo \<Rightarrow> string \<Rightarrow> path" where
  "marker_of dl m mid = model_dir_of dl m mid @ [''.download_complete'']"

definition is_downloaded :: "ModelDownloader \<Rightarrow> filesystem \<Rightarrow> string \<Rightarrow> bool" where
  "is_downloaded dl fs mid =
     (case get_model_info mid of
        None \<Rightarrow> False
      | Some m \<Rightarrow> path_exists fs (marker_of dl m mid))"

definition download_sync ::
  "transfer \<Rightarrow> ModelInfo \<Rightarrow> path \<Rightarrow> world \<Rightarrow> (error + path) \<times> world" where
  "download_sync tr m dir w =
     (case tr (repo_id m) dir (files w) of
        (r, fs') \<Rightarrow>
          (case r of Some e \<Rightarrow> Inl e | None \<Rightarrow> Inr dir,
           \<lparr>files = fs', transfer_log = transfer_log w @ [(repo_id m, dir)]\<rparr>))"

text \<open>
  \<open>download_model\<close>. The \<open>finally\<close> clause removes the progress entry on both exits
  of the \<open>try\<close> block; the directory is made and the entry is stored before the block.
\<close>

definition download_model ::
  "transfer \<Rightarrow> ModelDownloader \<Rightarrow> world \<Rightarrow> string \<Rightarrow> bool
     \<Rightarrow> (error + path) \<times> ModelDownloader \<times> world" where
  "download_model tr dl w mid force =
     (case get_model_info mid of
        None \<Rightarrow> (Inl (ValueError (''Unknown model: '' @ mid)), dl, w)
      | Some m \<Rightarrow>
          if is_downloaded dl (files w) mid \<and> \<not> force then (Inr (model_dir_of dl m mid), dl, w)
          else
            (case mkdir_parents (files w) (model_dir_of dl m mid) of
               Inl e \<Rightarrow> (Inl e, dl, w)
             | Inr fs1 \<Rightarrow>
                 (let progress = \<lparr>model_id = mid,
                                   total_bytes = \<lfloor>size_gb m * 1024 * 1024 * 1024\<rfloor>,
                                   downloaded_bytes = 0, current_file = [],
                                   files_completed = 0, files_total = 1\<rparr>;
                      dl1 = dl\<lparr>active_downloads := (active_downloads dl)(mid \<mapsto> progress)\<rparr>;
                      dl2 = dl1\<lparr>active_downloads := (active_downloads dl1)(mid := None)\<rparr>
                  in (case download_sync tr m (model_dir_of dl m mid) (w\<lparr>files := fs1\<rparr>) of
                        (Inl e, w2) \<Rightarrow> (Inl e, dl2, w2)
                      | (Inr result, w2) \<Rightarrow>
                          (case write_text (files w2) (marker_of dl m mid) (repo_id m) of
                             Inl e \<Rightarrow> (Inl e, dl2, w2)
                           | Inr fs3 \<Rightarrow> (Inr result, dl2, w2\<lparr>files := fs3\<rparr>))))))"

definition cleanup :: "ModelDownloader \<Rightarrow> filesystem \<Rightarrow> string \<Rightarrow> (error + bool) \<times> filesystem" where
  "cleanup dl fs mid =
     (case get_model_info mid of
        None \<Rightarrow> (Inr False, fs)
      | Some m \<Rightarrow>
          if path_exists fs (model_dir_of dl m mid) then
            (case rmtree fs (model_dir_of dl m mid) of
               Inl e \<Rightarrow> (Inl e, fs)
             | Inr fs' \<Rightarrow> (Inr True, fs'))
          else (Inr False, fs))"

section \<open>api/server.py: jobs and work items\<close>

datatype job_status = Pending | Processing | Completed | Failed

fun status_str :: "job_status \<Rightarrow> string" where
  "status_str Pending = ''pending''"
| "status_str Processing = ''processing''"
| "status_str Completed = ''completed''"
| "status_str Failed = ''failed''"

text \<open>
  A job is the dictionary stored under its id in \<open>state.jobs\<close>; a key that is absent
  from the dictionary is \<open>None\<close> here.
\<close>

record job =
  status :: job_status
  result :: "string option"
  error :: "string option"

record ImageRequest =
  ir_prompt :: string
  ir_negative_prompt :: string
  ir_width :: int
  ir_height :: int
  ir_model :: string
  ir_seed :: "int option"
  ir_num_images :: int

record VideoRequest =
  vr_prompt :: string
  vr_negative_prompt :: string
  vr_width :: int
  vr_height :: int
  vr_num_frames :: int
  vr_seed :: "int option"
  vr_image_path :: "string option"

record VideoGenerationConfig =
  vc_prompt :: string
  vc_negative_prompt :: string
  vc_width :: int
  vc_height :: int
  vc_num_frames :: int
  vc_num_inference_steps :: int
  vc_guidance_scale :: real
  vc_seed :: "int option"
  vc_fps :: int
  vc_output_path :: "string option"

record JobResponse =
  jr_job_id :: string
  jr_status :: job_status
  jr_result :: "string option"
  jr_error :: "string option"

text \<open>
  What is fixed when the process starts: which backends could be imported, the output
  directory (as \<open>str(OUTPUT_DIR)\<close>) and what torch reports.
\<close>

record deployment =
  HAS_IMAGE :: bool
  HAS_VIDEO :: bool
  OUTPUT_DIR :: string
  torch :: torch_env

text \<open>
  A work item is a background task added by a submission. It is a coroutine: it sets the
  status, resolves the backend and hands the generation call to the executor, and
  resumes when the executor is done. Its position is explicit: scheduled and not yet
  started, entered (status written), or awaiting the executor with the wrapper and the
  configuration of the call it made.
\<close>

datatype work_item =
    ImageScheduled ImageRequest
  | ImageEntered ImageRequest
  | ImageAwaiting FluxWrapper ImageGenerationConfig
  | VideoScheduled VideoRequest
  | VideoEntered VideoRequest
  | VideoAwaiting LTXVideoWrapper VideoGenerationConfig

text \<open>
  \<open>GenerationState\<close> together with the work items the event loop holds, keyed by the
  job id they were scheduled with.
\<close>

record system =
  video_wrapper :: "LTXVideoWrapper option"
  image_wrapper :: "FluxWrapper option"
  jobs :: "string \<rightharpoonup> job"
  tasks :: "string \<rightharpoonup> work_item"

definition initial_system :: system where
  "initial_system = \<lparr>video_wrapper = None, image_wrapper = None, jobs = Map.empty, tasks = Map.empty\<rparr>"

definition pending_job :: job where
  "pending_job = \<lparr>status = Pending, result = None, error = None\<rparr>"

definition failed_job :: "error \<Rightarrow> job" where
  "failed_job e = \<lparr>status = Failed, result = None, error = Some (str_of_error e)\<rparr>"

definition completed_job :: "string \<Rightarrow> job" where
  "completed_job r = \<lparr>status = Completed, result = Some r, error = None\<rparr>"

subsection \<open>Submission\<close>

text \<open>\<open>job_id\<close> is the value \<open>str(uuid.uuid4())\<close> returned for this request.\<close>

definition submit_image ::
  "deployment \<Rightarrow> string \<Rightarrow> ImageRequest \<Rightarrow> system \<Rightarrow> (error + JobResponse) \<times> system" where
  "submit_image d job_id request s =
     (if \<not> HAS_IMAGE d then
        (Inl (HTTPException 503 ''Image generation not available. Install Flux dependencies.''), s)
      else
        (Inr \<lparr>jr_job_id = job_id, jr_status = Pending, jr_result = None, jr_error = None\<rparr>,
         s\<lparr>jobs := (jobs s)(job_id \<mapsto> pending_job),
           tasks := (tasks s)(job_id \<mapsto> ImageScheduled request)\<rparr>))"

definition submit_video ::
  "deployment \<Rightarrow> string \<Rightarrow> VideoRequest \<Rightarrow> system \<Rightarrow> (error + JobResponse) \<times> system" where
  "submit_video d job_id request s =
     (if \<not> HAS_VIDEO d then
        (Inl (HTTPException 503 ''Video generation not available. Install LTX-Video dependencies.''), s)
      else
        (Inr \<lparr>jr_job_id = job_id, jr_status = Pending, jr_result = None, jr_error = None\<rparr>,
         s\<lparr>jobs := (jobs s)(job_id \<mapsto> pending_job),
           tasks := (tasks s)(job_id \<mapsto> VideoScheduled request)\<rparr>))"

subsection \<open>The work items\<close>

text \<open>
  \<open>process_image_generation\<close> is, in this order, \<open>set_processing\<close>,
  \<open>image_dispatch\<close> and, after the \<open>await\<close>, \<open>image_complete\<close>;
  \<open>process_video_generation\<close> is \<open>set_processing\<close>, \<open>video_dispatch\<close> and
  \<open>video_complete\<close>. The event loop runs the first two without a break; taking them
  as two moves only adds interleavings.

  The \<open>except Exception\<close> handler of both work items: the job is replaced by a failed
  record and the work item is over.
\<close>

definition fail_job :: "string \<Rightarrow> error \<Rightarrow> system \<Rightarrow> system" where
  "fail_job job_id e s =
     s\<lparr>jobs := (jobs s)(job_id \<mapsto> failed_job e), tasks := (tasks s)(job_id := None)\<rparr>"

text \<open>
  \<open>state.jobs[job_id]["status"] = "processing"\<close>: the stored dictionary is updated in
  place; a missing job raises \<open>KeyError\<close> inside the \<open>try\<close>.
\<close>

definition set_processing :: "string \<Rightarrow> work_item \<Rightarrow> system \<Rightarrow> system" where
  "set_processing job_id next_item s =
     (case jobs s job_id of
        None \<Rightarrow> fail_job job_id (KeyError job_id) s
      | Some j \<Rightarrow> s\<lparr>jobs := (jobs s)(job_id \<mapsto> j\<lparr>status := Processing\<rparr>),
                    tasks := (tasks s)(job_id \<mapsto> next_item)\<rparr>)"

text \<open>
  The configuration built for the backend. \<open>str(OUTPUT_DIR / f"{job_id}.png")\<close> is
  the directory, a slash and the file name (for an output directory that is neither the
  root nor the working directory itself; a job id is a UUID and holds no slash).
\<close>

definition image_config :: "deployment \<Rightarrow> string \<Rightarrow> ImageRequest \<Rightarrow> ImageGenerationConfig" where
  "image_config d job_id request =
     \<lparr>prompt = ir_prompt request, negative_prompt = ir_negative_prompt request,
      width = ir_width request, height = ir_height request,
      num_inference_steps = 4, guidance_scale = 0,
      seed = ir_seed request,
      output_path = Some (OUTPUT_DIR d @ ''/'' @ job_id @ ''.png''),
      num_images = ir_num_images request\<rparr>"

definition video_config :: "deployment \<Rightarrow> string \<Rightarrow> VideoRequest \<Rightarrow> VideoGenerationConfig" where
  "video_config d job_id request =
     \<lparr>vc_prompt = vr_prompt request, vc_negative_prompt = vr_negative_prompt request,
      vc_width = vr_width request, vc_height = vr_height request,
      vc_num_frames = vr_num_frames request,
      vc_num_inference_steps = 50, vc_guidance_scale = 7.5,
      vc_seed = vr_seed request, vc_fps = 24,
      vc_output_path = Some (OUTPUT_DIR d @ ''/'' @ job_id @ ''.mp4'')\<rparr>"

text \<open>
  From the wrapper check to \<open>run_in_executor\<close>. A wrapper of another variant is
  unloaded before the new one is constructed; if the constructor raises, the old
  wrapper stays in place, unloaded, and the handler fails the job.
\<close>

definition image_dispatch :: "deployment \<Rightarrow> string \<Rightarrow> ImageRequest \<Rightarrow> system \<Rightarrow> system" where
  "image_dispatch d job_id request s =
     (case (case image_wrapper s of
              None \<Rightarrow>
                (case FluxWrapper_init (torch d) (ir_model request) None None True of
                   Inl e \<Rightarrow> (Inl e, s)
                 | Inr w \<Rightarrow> (Inr w, s\<lparr>image_wrapper := Some w\<rparr>))
            | Some old \<Rightarrow>
                if model_variant old \<noteq> ir_model request then
                  (case FluxWrapper_init (torch d) (ir_model request) None None True of
                     Inl e \<Rightarrow> (Inl e, s\<lparr>image_wrapper := Some (old\<lparr>flux_pipeline_loaded := False\<rparr>)\<rparr>)
                   | Inr w \<Rightarrow> (Inr w, s\<lparr>image_wrapper := Some w\<rparr>))
                else (Inr old, s)) of
        (Inl e, s1) \<Rightarrow> fail_job job_id e s1
      | (Inr w, s1) \<Rightarrow>
          s1\<lparr>tasks := (tasks s1)(job_id \<mapsto> ImageAwaiting w (image_config d job_id request))\<rparr>)"

definition video_dispatch :: "deployment \<Rightarrow> string \<Rightarrow> VideoRequest \<Rightarrow> system \<Rightarrow> system" where
  "video_dispatch d job_id request s =
     (case (case video_wrapper s of
              None \<Rightarrow>
                (case LTXVideoWrapper_init (torch d) DISTILLED_MODEL None None True of
                   Inl e \<Rightarrow> (Inl e, s)
                 | Inr w \<Rightarrow> (Inr w, s\<lparr>video_wrapper := Some w\<rparr>))
            | Some old \<Rightarrow> (Inr old, s)) of
        (Inl e, s1) \<Rightarrow> fail_job job_id e s1
      | (Inr w, s1) \<Rightarrow>
          s1\<lparr>tasks := (tasks s1)(job_id \<mapsto> VideoAwaiting w (video_config d job_id request))\<rparr>)"

text \<open>
  After the \<open>await\<close>: the executor call raised, or returned what
  \<open>generate_image\<close> returned. \<open>result if isinstance(result, str) else result[0]\<close>
  keeps a single path and the first path of a list; an empty list raises
  \<open>IndexError\<close> inside the \<open>try\<close>. What the executor thread does to the
  wrapper (loading its pipeline) is not followed in \<open>image_wrapper\<close>.
\<close>

definition image_complete :: "string \<Rightarrow> error + gen_result \<Rightarrow> system \<Rightarrow> system" where
  "image_complete job_id outcome s =
     (case outcome of
        Inl e \<Rightarrow> fail_job job_id e s
      | Inr (Single p) \<Rightarrow>
          s\<lparr>jobs := (jobs s)(job_id \<mapsto> completed_job p), tasks := (tasks s)(job_id := None)\<rparr>
      | Inr (Many []) \<Rightarrow> fail_job job_id (IndexError ''list index out of range'') s
      | Inr (Many (p # _)) \<Rightarrow>
          s\<lparr>jobs := (jobs s)(job_id \<mapsto> completed_job p), tasks := (tasks s)(job_id := None)\<rparr>)"

definition video_complete :: "string \<Rightarrow> error + string \<Rightarrow> system \<Rightarrow> system" where
  "video_complete job_id outcome s =
     (case outcome of
        Inl e \<Rightarrow> fail_job job_id e s
      | Inr p \<Rightarrow>
          s\<lparr>jobs := (jobs s)(job_id \<mapsto> completed_job p), tasks := (tasks s)(job_id := None)\<rparr>)"

subsection \<open>Reading jobs\<close>

definition get_job_status :: "system \<Rightarrow> string \<Rightarrow> error + JobResponse" where
  "get_job_status s job_id =
     (case jobs s job_id of
        None \<Rightarrow> Inl (HTTPException 404 ''Job not found'')
      | Some j \<Rightarrow> Inr \<lparr>jr_job_id = job_id, jr_status = status j,
                       jr_result = result j, jr_error = error j\<rparr>)"

text \<open>
  \<open>download_result\<close>, with \<open>on_disk\<close> telling which paths exist. The
  \<open>FileResponse\<close> is given by the path it streams; its file name and media type are
  read off that path. A completed job without a result would raise \<open>KeyError\<close>.
\<close>

definition download_result :: "(string \<Rightarrow> bool) \<Rightarrow> system \<Rightarrow> string \<Rightarrow> error + string" where
  "download_result on_disk s job_id =
     (case jobs s job_id of
        None \<Rightarrow> Inl (HTTPException 404 ''Job not found'')
      | Some j \<Rightarrow>
          if status j \<noteq> Completed then
            Inl (HTTPException 400 (''Job status: '' @ status_str (status j)))
          else
            (case result j of
               None \<Rightarrow> Inl (KeyError ''result'')
             | Some file_path \<Rightarrow>
                 if \<not> on_disk file_path then Inl (HTTPException 404 ''Generated file not found'')
                 else Inr file_path))"

definition unload_models :: "system \<Rightarrow> system" where
  "unload_models s = s\<lparr>video_wrapper := None, image_wrapper := None\<rparr>"

subsection \<open>Everything that can happen to the server\<close>

text \<open>
  The requests the HTTP surface serves and the moves of the work items. A submission
  carries the identifier \<open>uuid4\<close> produced for it; a completion carries what the
  executor call raised or returned.
\<close>

datatype event =
    SubmitImage string ImageRequest
  | SubmitVideo string VideoRequest
  | Begin string
  | Dispatch string
  | CompleteImage string "error + gen_result"
  | CompleteVideo string "error + string"
  | GetJobStatus string
  | DownloadResult string
  | UnloadModels
  | GetModelsInfo
  | HealthCheck

text \<open>
  \<open>apply_event\<close> is \<open>None\<close> for an event that cannot occur in the state: a work item
  moves only from the position it is in, and \<open>uuid4\<close> does not return an identifier
  that is already a key of \<open>state.jobs\<close>.
\<close>

fun apply_event :: "deployment \<Rightarrow> event \<Rightarrow> system \<Rightarrow> system option" where
  "apply_event d (SubmitImage job_id request) s =
     (if job_id \<in> dom (jobs s) then None else Some (snd (submit_image d job_id request s)))"
| "apply_event d (SubmitVideo job_id request) s =
     (if job_id \<in> dom (jobs s) then None else Some (snd (submit_video d job_id request s)))"
| "apply_event d (Begin job_id) s =
     (case tasks s job_id of
        Some (ImageScheduled request) \<Rightarrow> Some (set_processing job_id (ImageEntered request) s)
      | Some (VideoScheduled request) \<Rightarrow> Some (set_processing job_id (VideoEntered request) s)
      | _ \<Rightarrow> None)"
| "apply_event d (Dispatch job_id) s =
     (case tasks s job_id of
        Some (ImageEntered request) \<Rightarrow> Some (image_dispatch d job_id request s)
      | Some (VideoEntered request) \<Rightarrow> Some (video_dispatch d job_id request s)
      | _ \<Rightarrow> None)"
| "apply_event d (CompleteImage job_id outcome) s =
     (case tasks s job_id of
        Some (ImageAwaiting w c) \<Rightarrow> Some (image_complete job_id outcome s)
      | _ \<Rightarrow> None)"
| "apply_event d (CompleteVideo job_id outcome) s =
     (case tasks s job_id of
        Some (VideoAwaiting w c) \<Rightarrow> Some (video_complete job_id outcome s)
      | _ \<Rightarrow> None)"
| "apply_event d (GetJobStatus job_id) s = Some s"
| "apply_event d (DownloadResult job_id) s = Some s"
| "apply_event d UnloadModels s = Some (unload_models s)"
| "apply_event d GetModelsInfo s = Some s"
| "apply_event d HealthCheck s = Some s"

fun run :: "deployment \<Rightarrow> event list \<Rightarrow> system \<Rightarrow> system option" where
  "run d [] s = Some s"
| "run d (e # es) s = (case apply_event d e s of None \<Rightarrow> None | Some s' \<Rightarrow> run d es s')"

text \<open>
  What holds of every work item the event loop holds: a scheduled one has a pending job
  without result or error, one that has entered or awaits the executor has a processing
  job without result or error; and a job whose work item is over is completed or failed.
\<close>

definition task_matches_job :: "system \<Rightarrow> string \<Rightarrow> bool" where
  "task_matches_job s job_id =
     (case tasks s job_id of
        None \<Rightarrow>
          (case jobs s job_id of
             None \<Rightarrow> True
           | Some j \<Rightarrow> status j = Completed \<or> status j = Failed)
      | Some (ImageScheduled _) \<Rightarrow> jobs s job_id = Some pending_job
      | Some (VideoScheduled _) \<Rightarrow> jobs s job_id = Some pending_job
      | Some _ \<Rightarrow> jobs s job_id = Some (pending_job\<lparr>status := Processing\<rparr>))"

subsection \<open>Reachable states\<close>

text \<open>
  The job and the work item after a sequence of events from the initial state
  (\<open>None\<close> when the sequence cannot occur or the id is unknown); the shape every
  stored job has; the job an event is about; and how one event may change a job.
\<close>

definition job_ok :: "job \<Rightarrow> bool" where
  "job_ok j =
     (case status j of
        Completed \<Rightarrow> result j \<noteq> None \<and> error j = None
      | Failed \<Rightarrow> result j = None \<and> error j \<noteq> None
      | _ \<Rightarrow> result j = None \<and> error j = None)"

fun target :: "event \<Rightarrow> string option" where
  "target (SubmitImage job_id _) = Some job_id"
| "target (SubmitVideo job_id _) = Some job_id"
| "target (Begin job_id) = Some job_id"
| "target (Dispatch job_id) = Some job_id"
| "target (CompleteImage job_id _) = Some job_id"
| "target (CompleteVideo job_id _) = Some job_id"
| "target _ = None"

definition job_inv :: "system \<Rightarrow> string \<Rightarrow> bool" where
  "job_inv s job_id =
     (task_matches_job s job_id \<and> (case jobs s job_id of None \<Rightarrow> True | Some j \<Rightarrow> job_ok j))"

text \<open>What an event does to its own job, from a state where the job and its work item agree.\<close>

definition job_step :: "job option \<Rightarrow> job option \<Rightarrow> bool" where
  "job_step old new =
     (case old of
        None \<Rightarrow> new = None \<or> new = Some pending_job
      | Some j \<Rightarrow>
          new = Some j
          \<or> (status j = Pending \<and> new = Some (j\<lparr>status := Processing\<rparr>))
          \<or> (status j = Processing
              \<and> (case new of None \<Rightarrow> False
                  | Some j' \<Rightarrow> (status j' = Completed \<or> status j' = Failed) \<and> job_ok j')))"

definition job_after :: "deployment \<Rightarrow> event list \<Rightarrow> string \<Rightarrow> job option" where
  "job_after d evs job_id = (case run d evs initial_system of None \<Rightarrow> None | Some s \<Rightarrow> jobs s job_id)"

definition task_after :: "deployment \<Rightarrow> event list \<Rightarrow> string \<Rightarrow> work_item option" where
  "task_after d evs job_id = (case run d evs initial_system of None \<Rightarrow> None | Some s \<Rightarrow> tasks s job_id)"

section \<open>Example inputs\<close>

text \<open>
  A downloader rooted at \<open>models\<close>; a model directory holding a partial weight file
  and no marker, and the same directory with the marker; a transfer that fails after
  writing a partial file, and one that succeeds.
\<close>

definition example_downloader :: ModelDownloader where
  "example_downloader = \<lparr>models_dir = [''models''], max_concurrent = 2, active_downloads = Map.empty\<rparr>"

definition partial_files :: filesystem where
  "partial_files =
     map_of [([''models''], Dir),
             ([''models'', ''image''], Dir),
             ([''models'', ''image'', ''flux-dev''], Dir),
             ([''models'', ''image'', ''flux-dev'', ''model.safetensors''], File ''partial'')]"

definition complete_files :: filesystem where
  "complete_files =
     partial_files([''models'', ''image'', ''flux-dev'', ''.download_complete'']
                     \<mapsto> File ''black-forest-labs/FLUX.1-dev'')"

definition failing_transfer :: transfer where
  "failing_transfer repo dir fs =
     (Some (BackendFailure ''connection reset''), fs(dir @ [''model.safetensors''] \<mapsto> File ''partial''))"

definition succeeding_transfer :: transfer where
  "succeeding_transfer repo dir fs = (None, fs(dir @ [''model.safetensors''] \<mapsto> File ''weights''))"

text \<open>A deployment with both backends, requests, and a backend that always succeeds.\<close>

definition example_deployment :: deployment where
  "example_deployment =
     \<lparr>HAS_IMAGE = True, HAS_VIDEO = True, OUTPUT_DIR = ''outputs'',
      torch = \<lparr>cuda_available = False, mps_available = False, bf16_supported = False\<rparr>\<rparr>"

definition example_image_request :: ImageRequest where
  "example_image_request =
     \<lparr>ir_prompt = ''a cat'', ir_negative_prompt = [], ir_width = 1024, ir_height = 1024,
      ir_model = ''schnell'', ir_seed = None, ir_num_images = 2\<rparr>"

definition example_video_request :: VideoRequest where
  "example_video_request =
     \<lparr>vr_prompt = ''a wave'', vr_negative_prompt = [], vr_width = 768, vr_height = 512,
      vr_num_frames = 97, vr_seed = None, vr_image_path = None\<rparr>"

definition example_wrapper :: FluxWrapper where
  "example_wrapper =
     \<lparr>model_variant = ''schnell'', flux_model_id = ''black-forest-labs/FLUX.1-schnell'',
      flux_device = ''cpu'', flux_dtype = float32, flux_enable_cpu_offload = True,
      flux_pipeline_loaded = False\<rparr>"

definition example_backend :: flux_backend where
  "example_backend =
     \<lparr>from_pretrained = None, place_on_device = None,
      run_pipeline = (\<lambda>a. Inr (nat (arg_num_images_per_prompt a))),
      image_save = (\<lambda>p. None)\<rparr>"

definition example_start :: "event list" where
  "example_start = [SubmitImage ''j1'' example_image_request, Begin ''j1'', Dispatch ''j1'']"

definition example_video_start :: "event list" where
  "example_video_start = [SubmitVideo ''j2'' example_video_request, Begin ''j2'', Dispatch ''j2'']"

definition example_video_wrapper :: LTXVideoWrapper where
  "example_video_wrapper =
     \<lparr>ltx_model_id = ''Lightricks/LTX-Video-0.9.8-distilled'', ltx_device = ''cpu'',
      ltx_dtype = float32, ltx_enable_cpu_offload = True,
      text2video_loaded = False, img2video_loaded = False\<rparr>"

definition example_jobs :: system where
  "example_jobs =
     initial_system\<lparr>jobs := [''j1'' \<mapsto> completed_job ''outputs/j1.png'', ''j2'' \<mapsto> pending_job]\<rparr>"

text \<open>
  A backend whose inference call fails exactly when it is asked for the given step count
  and guidance weight, and a configuration that requests 50 steps and guidance 7.5.
\<close>

definition step_checking_backend :: "int \<Rightarrow> real \<Rightarrow> flux_backend" where
  "step_checking_backend n g =
     example_backend\<lparr>run_pipeline :=
       (\<lambda>a. if arg_num_inference_steps a = n \<and> arg_guidance_scale a = g
            then Inl (BackendFailure ''inference failed'') else Inr 1)\<rparr>"

definition example_config :: ImageGenerationConfig where
  "example_config =
     (image_config example_deployment ''j1'' example_image_request)
       \<lparr>num_inference_steps := 50, guidance_scale := 7.5\<rparr>"

section \<open>Auxiliary facts\<close>

subsection \<open>Decimal strings and extensions\<close>

lemma of_char_digit: "d < 10 \<Longrightarrow> of_char (digit_char d) = 48 + d"
  by (simp add: digit_char_def)

lemma digits_value_snoc: "digits_value (s @ [c]) = 10 * digits_value s + (of_char c - 48)"
  by (simp add: digits_value_def)

lemma digits_value_str_nat: "digits_value (str_nat n) = n"
proof (induction n rule: str_nat.induct)
  case (1 n)
  show ?case
  proof (cases "n < 10")
    case True
    then have "str_nat n = [digit_char n]" by (simp add: str_nat.simps [of n])
    with True show ?thesis by (simp add: digits_value_def of_char_digit)
  next
    case False
    then have e: "str_nat n = str_nat (n div 10) @ [digit_char (n mod 10)]"
      by (simp add: str_nat.simps [of n])
    have "digits_value (str_nat n) = 10 * (n div 10) + n mod 10"
      using 1 False by (simp add: e digits_value_snoc of_char_digit)
    then show ?thesis by simp
  qed
qed

lemma str_nat_inj: "str_nat m = str_nat n \<Longrightarrow> m = n"
  by (metis digits_value_str_nat)

lemma digit_char_values:
  "map digit_char [0, 1, 2, 3, 4, 5, 6, 7, 8, 9] = ''0123456789''"
  by code_simp

lemma digit_char_simps:
  "digit_char 0 = CHR ''0''" "digit_char 1 = CHR ''1''" "digit_char 2 = CHR ''2''"
  "digit_char 3 = CHR ''3''" "digit_char 4 = CHR ''4''" "digit_char 5 = CHR ''5''"
  "digit_char 6 = CHR ''6''" "digit_char 7 = CHR ''7''" "digit_char 8 = CHR ''8''"
  "digit_char 9 = CHR ''9''"
  "digit_char (Suc 0) = CHR ''1''" "digit_char (Suc (Suc 0)) = CHR ''2''"
  using digit_char_values by (simp_all add: numeral_2_eq_2)

lemma skip_leading_dots_append:
  "skip_leading_dots p f d = (name, ext) \<Longrightarrow> name @ ext = p"
proof (induction p f d rule: skip_leading_dots.induct)
  case (1 p f d)
  then show ?case
    by (auto simp: skip_leading_dots.simps [of p f d] split: if_splits)
qed

lemma splitext_append: "splitext p = (name, ext) \<Longrightarrow> name @ ext = p"
  by (auto simp: splitext_def Let_def skip_leading_dots_append split: if_splits)

lemma suffixed_paths_distinct:
  "distinct (map (\<lambda>i. name @ ''_'' @ str_nat i @ e) [0..<n])"
  by (auto simp: distinct_map intro!: inj_onI dest: str_nat_inj)

subsection \<open>The image backend\<close>

lemma save_images_all_ok: "\<forall>p. sv p = None \<Longrightarrow> save_images sv ps = Inr ps"
  by (induction ps) simp_all

lemma load_pipeline_variant: "model_variant (snd (load_pipeline b w)) = model_variant w"
  by (simp add: load_pipeline_def split: option.splits)

lemma pipeline_call_variant:
  "model_variant w' = model_variant w \<Longrightarrow> pipeline_call w' c = pipeline_call w c"
  by (simp add: pipeline_call_def)

lemma generate_image_pipeline_error:
  "fst (load_pipeline b w) = None \<Longrightarrow> run_pipeline b (pipeline_call w c) = Inl e
   \<Longrightarrow> fst (generate_image b w c) = Inl e"
proof -
  assume l: "fst (load_pipeline b w) = None" and r: "run_pipeline b (pipeline_call w c) = Inl e"
  obtain w' where lw: "load_pipeline b w = (None, w')"
    using l by (cases "load_pipeline b w") simp
  have "model_variant w' = model_variant w"
    using load_pipeline_variant [of b w] lw by simp
  then have "pipeline_call w' c = pipeline_call w c"
    by (rule pipeline_call_variant)
  then show ?thesis
    using r by (simp add: generate_image_def lw)
qed


subsection \<open>The model store\<close>

lemma mkdir_parents_other:
  "mkdir_parents fs p = Inr fs' \<Longrightarrow> \<not> prefix q p \<Longrightarrow> fs' q = fs q"
  by (auto simp: mkdir_parents_def split: if_splits)

lemma marker_not_prefix: "\<not> prefix (marker_of dl m mid) (model_dir_of dl m mid)"
  by (simp add: marker_of_def prefix_def)

lemma model_dir_prefix_marker: "prefix (model_dir_of dl m mid) (marker_of dl m mid)"
  by (simp add: marker_of_def)

lemma mkdir_parents_marker:
  "mkdir_parents fs (model_dir_of dl m mid) = Inr fs1
     \<Longrightarrow> fs1 (marker_of dl m mid) = fs (marker_of dl m mid)"
  using mkdir_parents_other [of fs "model_dir_of dl m mid" fs1 "marker_of dl m mid"]
    marker_not_prefix [of dl m mid]
  by simp

lemma write_text_result: "write_text fs p c = Inr fs' \<Longrightarrow> fs' p = Some (File c)"
  by (auto simp: write_text_def split: if_splits)

lemma download_model_attempts:
  "get_model_info mid = Some m \<Longrightarrow> files w (marker_of dl m mid) = None
   \<Longrightarrow> \<not> list_ex (is_file (files w)) (tl (prefixes (model_dir_of dl m mid)))
   \<Longrightarrow> transfer_log (snd (snd (download_model tr dl w mid force)))
         = transfer_log w @ [(repo_id m, model_dir_of dl m mid)]"
  by (auto simp: download_model_def is_downloaded_def path_exists_def download_sync_def
        mkdir_parents_def Let_def split: sum.splits prod.splits option.splits)

lemmas example_defs = example_downloader_def partial_files_def complete_files_def
  failing_transfer_def succeeding_transfer_def

subsection \<open>The job table\<close>

lemma fail_job_fields [simp]:
  "jobs (fail_job i e s) = (jobs s)(i \<mapsto> failed_job e)"
  "tasks (fail_job i e s) = (tasks s)(i := None)"
  by (simp_all add: fail_job_def)

lemma image_dispatch_cases:
  "(\<exists>e. jobs (image_dispatch d i r s) = (jobs s)(i \<mapsto> failed_job e)
        \<and> tasks (image_dispatch d i r s) = (tasks s)(i := None))
   \<or> (\<exists>w c. jobs (image_dispatch d i r s) = jobs s
        \<and> tasks (image_dispatch d i r s) = (tasks s)(i \<mapsto> ImageAwaiting w c))"
  by (auto simp: image_dispatch_def split: option.splits sum.splits)

lemma video_dispatch_cases:
  "(\<exists>e. jobs (video_dispatch d i r s) = (jobs s)(i \<mapsto> failed_job e)
        \<and> tasks (video_dispatch d i r s) = (tasks s)(i := None))
   \<or> (\<exists>w c. jobs (video_dispatch d i r s) = jobs s
        \<and> tasks (video_dispatch d i r s) = (tasks s)(i \<mapsto> VideoAwaiting w c))"
  by (auto simp: video_dispatch_def split: option.splits sum.splits)

lemma image_complete_cases:
  "(\<exists>e. jobs (image_complete i out s) = (jobs s)(i \<mapsto> failed_job e)
        \<and> tasks (image_complete i out s) = (tasks s)(i := None))
   \<or> (\<exists>p. jobs (image_complete i out s) = (jobs s)(i \<mapsto> completed_job p)
        \<and> tasks (image_complete i out s) = (tasks s)(i := None))"
  by (auto simp: image_complete_def split: sum.splits gen_result.splits list.splits)

lemma video_complete_cases:
  "(\<exists>e. jobs (video_complete i out s) = (jobs s)(i \<mapsto> failed_job e)
        \<and> tasks (video_complete i out s) = (tasks s)(i := None))
   \<or> (\<exists>p. jobs (video_complete i out s) = (jobs s)(i \<mapsto> completed_job p)
        \<and> tasks (video_complete i out s) = (tasks s)(i := None))"
  by (auto simp: video_complete_def split: sum.splits)

lemma job_ok_simps [simp]:
  "job_ok pending_job" "job_ok (pending_job\<lparr>status := Processing\<rparr>)"
  "job_ok (failed_job e)" "job_ok (completed_job p)"
  by (simp_all add: job_ok_def pending_job_def failed_job_def completed_job_def)

lemma set_processing_frame:
  "i \<noteq> k \<Longrightarrow> jobs (set_processing k n s) i = jobs s i \<and> tasks (set_processing k n s) i = tasks s i"
  by (simp add: set_processing_def split: option.splits)

lemma image_dispatch_frame:
  "i \<noteq> k \<Longrightarrow> jobs (image_dispatch d k r s) i = jobs s i
           \<and> tasks (image_dispatch d k r s) i = tasks s i"
  using image_dispatch_cases [of d k r s] by auto

lemma video_dispatch_frame:
  "i \<noteq> k \<Longrightarrow> jobs (video_dispatch d k r s) i = jobs s i
           \<and> tasks (video_dispatch d k r s) i = tasks s i"
  using video_dispatch_cases [of d k r s] by auto

lemma image_complete_frame:
  "i \<noteq> k \<Longrightarrow> jobs (image_complete k out s) i = jobs s i
           \<and> tasks (image_complete k out s) i = tasks s i"
  using image_complete_cases [of k out s] by auto

lemma video_complete_frame:
  "i \<noteq> k \<Longrightarrow> jobs (video_complete k out s) i = jobs s i
           \<and> tasks (video_complete k out s) i = tasks s i"
  using video_complete_cases [of k out s] by auto

text \<open>An event leaves every job and work item other than its own alone.\<close>

lemma apply_event_frame:
  assumes "apply_event d e s = Some s'" and "target e \<noteq> Some i"
  shows "jobs s' i = jobs s i \<and> tasks s' i = tasks s i"
proof (cases e)
  case (SubmitImage k r)
  with assms show ?thesis by (auto simp: submit_image_def split: if_splits)
next
  case (SubmitVideo k r)
  with assms show ?thesis by (auto simp: submit_video_def split: if_splits)
next
  case (Begin k)
  with assms show ?thesis
    by (auto simp: set_processing_frame split: option.splits work_item.splits)
next
  case (Dispatch k)
  with assms show ?thesis
    by (auto simp: image_dispatch_frame video_dispatch_frame
          split: option.splits work_item.splits)
next
  case (CompleteImage k out)
  with assms show ?thesis
    by (auto simp: image_complete_frame split: option.splits work_item.splits)
next
  case (CompleteVideo k out)
  with assms show ?thesis
    by (auto simp: video_complete_frame split: option.splits work_item.splits)
qed (use assms in \<open>auto simp: unload_models_def\<close>)

lemma apply_event_target:
  assumes inv: "job_inv s i" and step: "apply_event d e s = Some s'" and tg: "target e = Some i"
  shows "job_inv s' i \<and> job_step (jobs s i) (jobs s' i)"
proof (cases e)
  case (SubmitImage k r)
  with assms show ?thesis
    by (auto simp: submit_image_def job_inv_def task_matches_job_def job_step_def domIff
          split: if_splits option.splits)
next
  case (SubmitVideo k r)
  with assms show ?thesis
    by (auto simp: submit_video_def job_inv_def task_matches_job_def job_step_def domIff
          split: if_splits option.splits)
next
  case (Begin k)
  with assms show ?thesis
    by (auto simp: set_processing_def job_inv_def task_matches_job_def job_step_def
          pending_job_def job_ok_def
          split: option.splits work_item.splits)
next
  case (Dispatch k)
  then have k: "k = i" using tg by simp
  show ?thesis
  proof (cases "tasks s i")
    case None
    with step Dispatch k show ?thesis by simp
  next
    case (Some t)
    show ?thesis
    proof (cases t)
      case (ImageEntered r)
      then have s': "s' = image_dispatch d i r s"
        using step Dispatch k Some by simp
      have j: "jobs s i = Some (pending_job\<lparr>status := Processing\<rparr>)"
        using inv Some ImageEntered by (simp add: job_inv_def task_matches_job_def)
      show ?thesis
        using image_dispatch_cases [of d i r s] j
        by (auto simp: s' job_inv_def task_matches_job_def job_step_def pending_job_def
              failed_job_def job_ok_def)
    next
      case (VideoEntered r)
      then have s': "s' = video_dispatch d i r s"
        using step Dispatch k Some by simp
      have j: "jobs s i = Some (pending_job\<lparr>status := Processing\<rparr>)"
        using inv Some VideoEntered by (simp add: job_inv_def task_matches_job_def)
      show ?thesis
        using video_dispatch_cases [of d i r s] j
        by (auto simp: s' job_inv_def task_matches_job_def job_step_def pending_job_def
              failed_job_def job_ok_def)
    qed (use step Dispatch k Some in simp_all)
  qed
next
  case (CompleteImage k out)
  then have k: "k = i" using tg by simp
  show ?thesis
  proof (cases "tasks s i")
    case None
    with step CompleteImage k show ?thesis by simp
  next
    case (Some t)
    show ?thesis
    proof (cases t)
      case (ImageAwaiting w c)
      then have s': "s' = image_complete i out s"
        using step CompleteImage k Some by simp
      have j: "jobs s i = Some (pending_job\<lparr>status := Processing\<rparr>)"
        using inv Some ImageAwaiting by (simp add: job_inv_def task_matches_job_def)
      show ?thesis
        using image_complete_cases [of i out s] j
        by (auto simp: s' job_inv_def task_matches_job_def job_step_def pending_job_def
              failed_job_def completed_job_def job_ok_def)
    qed (use step CompleteImage k Some in simp_all)
  qed
next
  case (CompleteVideo k out)
  then have k: "k = i" using tg by simp
  show ?thesis
  proof (cases "tasks s i")
    case None
    with step CompleteVideo k show ?thesis by simp
  next
    case (Some t)
    show ?thesis
    proof (cases t)
      case (VideoAwaiting w c)
      then have s': "s' = video_complete i out s"
        using step CompleteVideo k Some by simp
      have j: "jobs s i = Some (pending_job\<lparr>status := Processing\<rparr>)"
        using inv Some VideoAwaiting by (simp add: job_inv_def task_matches_job_def)
      show ?thesis
        using video_complete_cases [of i out s] j
        by (auto simp: s' job_inv_def task_matches_job_def job_step_def pending_job_def
              failed_job_def completed_job_def job_ok_def)
    qed (use step CompleteVideo k Some in simp_all)
  qed
qed (use tg in simp_all)

lemma job_step_refl: "job_step x x"
  by (simp add: job_step_def split: option.splits)

lemma apply_event_inv:
  assumes "job_inv s i" and "apply_event d e s = Some s'"
  shows "job_inv s' i \<and> job_step (jobs s i) (jobs s' i)"
proof (cases "target e = Some i")
  case True
  with assms show ?thesis by (rule apply_event_target)
next
  case False
  with assms(2) have "jobs s' i = jobs s i \<and> tasks s' i = tasks s i"
    by (rule apply_event_frame)
  then have "job_inv s' i = job_inv s i"
    by (simp add: job_inv_def task_matches_job_def split: option.splits work_item.splits)
  with assms(1) \<open>jobs s' i = jobs s i \<and> tasks s' i = tasks s i\<close> show ?thesis
    by (simp add: job_step_refl)
qed

lemma run_inv:
  "run d evs s = Some s' \<Longrightarrow> job_inv s i \<Longrightarrow> job_inv s' i"
proof (induction evs arbitrary: s)
  case Nil
  then show ?case by simp
next
  case (Cons e evs)
  then show ?case
    by (auto split: option.splits dest: apply_event_inv)
qed

lemma initial_inv: "job_inv initial_system i"
  by (simp add: job_inv_def task_matches_job_def initial_system_def)

lemma reachable_inv: "run d evs initial_system = Some s \<Longrightarrow> job_inv s i"
  using run_inv initial_inv by blast

lemma example_task:
  "task_after example_deployment example_start ''j1''
     = Some (ImageAwaiting example_wrapper (image_config example_deployment ''j1'' example_image_request))"
  by (simp add: task_after_def example_start_def example_deployment_def example_image_request_def
        example_wrapper_def submit_image_def initial_system_def set_processing_def
        image_dispatch_def FluxWrapper_init_def FLUX_MODELS_def or_str_def detect_device_def
        get_optimal_dtype_def pending_job_def)

lemma example_generate:
  "fst (generate_image example_backend example_wrapper
          (image_config example_deployment ''j1'' example_image_request))
     = Inr (Many [''outputs/j1_0.png'', ''outputs/j1_1.png''])"
  by (simp add: generate_image_def example_backend_def example_wrapper_def image_config_def
        example_deployment_def example_image_request_def load_pipeline_def pipeline_call_def
        variant_params_def image_path_def or_str_def splitext_def rfind_def
        skip_leading_dots.simps str_nat.simps digit_char_simps upt_conv_Cons)

lemma job_eq:
  "(j = \<lparr>status = a, result = b, error = c\<rparr>) = (status j = a \<and> result j = b \<and> error j = c)"
  by (cases j) auto

lemma completed_has_result:
  "job_inv s i \<Longrightarrow> jobs s i = Some j \<Longrightarrow> status j = Completed \<Longrightarrow> result j \<noteq> None"
  by (simp add: job_inv_def job_ok_def)

lemma run_append:
  "run d (xs @ ys) s = (case run d xs s of None \<Rightarrow> None | Some s1 \<Rightarrow> run d ys s1)"
  by (induction xs arbitrary: s) (auto split: option.splits)

lemma terminal_step:
  assumes "job_inv s i" and "apply_event d e s = Some s'"
    and "jobs s i = Some j" and "status j = Completed \<or> status j = Failed"
  shows "jobs s' i = Some j"
  using apply_event_inv [OF assms(1,2)] assms(3,4) by (auto simp: job_step_def)

lemma terminal_run:
  "run d later s = Some s' \<Longrightarrow> job_inv s i \<Longrightarrow> jobs s i = Some j
   \<Longrightarrow> status j = Completed \<or> status j = Failed \<Longrightarrow> jobs s' i = Some j"
proof (induction later arbitrary: s)
  case Nil
  then show ?case by simp
next
  case (Cons e later)
  from Cons.prems(1) obtain s1 where s1: "apply_event d e s = Some s1" "run d later s1 = Some s'"
    by (auto split: option.splits)
  have "job_inv s1 i"
    using apply_event_inv [OF Cons.prems(2) s1(1)] by simp
  moreover have "jobs s1 i = Some j"
    using terminal_step [OF Cons.prems(2) s1(1) Cons.prems(3,4)] .
  ultimately show ?case
    using Cons.IH [OF s1(2)] Cons.prems(4) by simp
qed

lemma step_lifecycle:
  assumes inv: "job_inv s i"
    and step: "apply_event d e s = Some s'"
  shows "(jobs s i = None \<longrightarrow>
            jobs s' i = None
            \<or> jobs s' i = Some \<lparr>status = Pending, result = None, error = None\<rparr>)
       \<and> (jobs s i = Some j \<and> status j = Pending \<longrightarrow>
            jobs s' i = Some j \<or> jobs s' i = Some (j\<lparr>status := Processing\<rparr>))
       \<and> (jobs s i = Some j \<and> status j = Processing \<longrightarrow>
            jobs s' i = Some j
            \<or> (\<exists>p. jobs s' i = Some \<lparr>status = Completed, result = Some p, error = None\<rparr>)
            \<or> (\<exists>m. jobs s' i = Some \<lparr>status = Failed, result = None, error = Some m\<rparr>))
       \<and> ((e = SubmitImage i ir \<and> HAS_IMAGE d) \<or> (e = SubmitVideo i vr \<and> HAS_VIDEO d) \<longrightarrow>
            jobs s' i = Some \<lparr>status = Pending, result = None, error = None\<rparr>)
       \<and> (e = Begin i \<longrightarrow> (\<exists>j'. jobs s' i = Some j' \<and> status j' = Processing))
       \<and> (tasks s i = Some (ImageAwaiting w c) \<or> tasks s i = Some (VideoAwaiting vw vc) \<longrightarrow>
            (\<exists>j'. jobs s i = Some j' \<and> status j' = Processing))
       \<and> (e = CompleteImage i out \<or> e = CompleteVideo i vout \<longrightarrow>
            tasks s' i = None
            \<and> (\<exists>j'. jobs s' i = Some j' \<and> (status j' = Completed \<or> status j' = Failed)))"
proof -
  have st: "job_inv s' i" "job_step (jobs s i) (jobs s' i)"
    using apply_event_inv [OF inv step] by simp_all
  have a: "jobs s' i = None \<or> jobs s' i = Some \<lparr>status = Pending, result = None, error = None\<rparr>"
    if "jobs s i = None"
    using st(2) that by (simp add: job_step_def pending_job_def)
  have b: "jobs s' i = Some j \<or> jobs s' i = Some (j\<lparr>status := Processing\<rparr>)"
    if "jobs s i = Some j" "status j = Pending"
    using st(2) that by (auto simp: job_step_def)
  have c: "jobs s' i = Some j
            \<or> (\<exists>p. jobs s' i = Some \<lparr>status = Completed, result = Some p, error = None\<rparr>)
            \<or> (\<exists>m. jobs s' i = Some \<lparr>status = Failed, result = None, error = Some m\<rparr>)"
    if "jobs s i = Some j" "status j = Processing"
    using st(2) that
    by (auto simp: job_step_def job_ok_def job_eq split: option.splits)
  have e: "jobs s' i = Some \<lparr>status = Pending, result = None, error = None\<rparr>"
    if "(e = SubmitImage i ir \<and> HAS_IMAGE d) \<or> (e = SubmitVideo i vr \<and> HAS_VIDEO d)"
    using that step
    by (auto simp: submit_image_def submit_video_def pending_job_def split: if_splits)
  have f: "\<exists>j'. jobs s' i = Some j' \<and> status j' = Processing" if "e = Begin i"
    using that step inv
    by (auto simp: job_inv_def task_matches_job_def set_processing_def
          split: option.splits work_item.splits)
  have g: "\<exists>j'. jobs s i = Some j' \<and> status j' = Processing"
    if "tasks s i = Some (ImageAwaiting w c) \<or> tasks s i = Some (VideoAwaiting vw vc)"
    using that inv by (auto simp: job_inv_def task_matches_job_def)
  have h: "tasks s' i = None
            \<and> (\<exists>j'. jobs s' i = Some j' \<and> (status j' = Completed \<or> status j' = Failed))"
    if "e = CompleteImage i out \<or> e = CompleteVideo i vout"
    using that step image_complete_cases [of i out s] video_complete_cases [of i vout s]
    by (auto simp: failed_job_def completed_job_def split: option.splits work_item.splits)
  show ?thesis
    using a b c e f g h by blast
qed

lemma work_item_over:
  "job_inv s i \<Longrightarrow> tasks s i = None \<Longrightarrow> jobs s i = Some j
   \<Longrightarrow> status j = Completed \<or> status j = Failed"
  by (simp add: job_inv_def task_matches_job_def)

lemma image_dispatch_result:
  "(\<exists>w. tasks (image_dispatch d i r s) i = Some (ImageAwaiting w (image_config d i r))
        \<and> model_variant w = ir_model r
        \<and> jobs (image_dispatch d i r s) = jobs s)
   \<or> (tasks (image_dispatch d i r s) i = None
        \<and> (\<exists>e. jobs (image_dispatch d i r s) i = Some (failed_job e)))"
  by (auto simp: image_dispatch_def FluxWrapper_init_def Let_def
        split: option.splits sum.splits)

lemma video_dispatch_result:
  "\<exists>w. tasks (video_dispatch d i r s) i = Some (VideoAwaiting w (video_config d i r))
        \<and> jobs (video_dispatch d i r s) = jobs s"
  by (auto simp: video_dispatch_def LTXVideoWrapper_init_def Let_def split: option.splits)

lemma step_work_item:
  assumes inv: "job_inv s i"
    and step: "apply_event d e s = Some s'"
  shows "(e = Begin i \<and> tasks s i = Some (ImageScheduled req) \<longrightarrow>
            tasks s' i = Some (ImageEntered req))
       \<and> (e = Begin i \<and> tasks s i = Some (VideoScheduled vreq) \<longrightarrow>
            tasks s' i = Some (VideoEntered vreq))
       \<and> (e = Dispatch i \<and> tasks s i = Some (ImageEntered req) \<longrightarrow>
            (\<exists>w'. tasks s' i = Some (ImageAwaiting w' (image_config d i req))
                  \<and> model_variant w' = ir_model req
                  \<and> jobs s' i = Some \<lparr>status = Processing, result = None, error = None\<rparr>)
            \<or> (tasks s' i = None
                \<and> (\<exists>m. jobs s' i = Some \<lparr>status = Failed, result = None, error = Some m\<rparr>)))
       \<and> (e = Dispatch i \<and> tasks s i = Some (VideoEntered vreq) \<longrightarrow>
            (\<exists>w'. tasks s' i = Some (VideoAwaiting w' (video_config d i vreq))
                  \<and> jobs s' i = Some \<lparr>status = Processing, result = None, error = None\<rparr>))"
proof -
  have a: "tasks s' i = Some (ImageEntered req)"
    if "e = Begin i" "tasks s i = Some (ImageScheduled req)"
    using that step inv
    by (auto simp: job_inv_def task_matches_job_def set_processing_def)
  have b: "tasks s' i = Some (VideoEntered vreq)"
    if "e = Begin i" "tasks s i = Some (VideoScheduled vreq)"
    using that step inv
    by (auto simp: job_inv_def task_matches_job_def set_processing_def)
  have c: "(\<exists>w'. tasks s' i = Some (ImageAwaiting w' (image_config d i req))
                  \<and> model_variant w' = ir_model req
                  \<and> jobs s' i = Some \<lparr>status = Processing, result = None, error = None\<rparr>)
            \<or> (tasks s' i = None
                \<and> (\<exists>m. jobs s' i = Some \<lparr>status = Failed, result = None, error = Some m\<rparr>))"
    if "e = Dispatch i" "tasks s i = Some (ImageEntered req)"
  proof -
    have s': "s' = image_dispatch d i req s"
      using that step by simp
    have j: "jobs s i = Some \<lparr>status = Processing, result = None, error = None\<rparr>"
      using inv that(2) by (simp add: job_inv_def task_matches_job_def pending_job_def)
    show ?thesis
      using image_dispatch_result [of d i req s] j
      by (auto simp: s' failed_job_def)
  qed
  have dd: "\<exists>w'. tasks s' i = Some (VideoAwaiting w' (video_config d i vreq))
                  \<and> jobs s' i = Some \<lparr>status = Processing, result = None, error = None\<rparr>"
    if "e = Dispatch i" "tasks s i = Some (VideoEntered vreq)"
  proof -
    have s': "s' = video_dispatch d i vreq s"
      using that step by simp
    have j: "jobs s i = Some \<lparr>status = Processing, result = None, error = None\<rparr>"
      using inv that(2) by (simp add: job_inv_def task_matches_job_def pending_job_def)
    show ?thesis
      using video_dispatch_result [of d i vreq s] j
      by (auto simp: s')
  qed
  show ?thesis
    using a b c dd by blast
qed

lemmas server_defs = job_after_def task_after_def example_start_def example_deployment_def
  example_image_request_def example_video_request_def example_wrapper_def
  example_video_start_def example_video_wrapper_def
  submit_image_def submit_video_def initial_system_def set_processing_def
  image_dispatch_def video_dispatch_def FluxWrapper_init_def LTXVideoWrapper_init_def
  FLUX_MODELS_def DISTILLED_MODEL_def or_str_def detect_device_def get_optimal_dtype_def
  pending_job_def failed_job_def completed_job_def image_complete_def video_complete_def
  fail_job_def unload_models_def image_config_def video_config_def

lemma example_generate_single:
  "fst (generate_image example_backend example_wrapper
          (image_config example_deployment ''j1'' (example_image_request\<lparr>ir_num_images := 1\<rparr>)))
     = Inr (Single ''outputs/j1.png'')"
  by (simp add: generate_image_def example_backend_def example_wrapper_def image_config_def
        example_deployment_def example_image_request_def load_pipeline_def pipeline_call_def
        variant_params_def image_path_def or_str_def)

section \<open>Results\<close>

subsection \<open>Job lifecycle\<close>

text \<open>
  C1. Along every sequence of events that can occur from the initial state, for every
  job id: an absent job stays absent or appears as pending with no result and no error
  (and a submission does insert it so); a pending job stays as it is or becomes
  processing; a processing job stays as it is or becomes completed (with a result, no
  error) or failed (with an error, no result); a completed or failed job is the same
  record after any further events. The work item sets processing when it begins and
  moves on to its dispatch; the dispatch either hands the call for this job's
  configuration to the executor, the job still processing, or fails the job and ends the
  work item (the video dispatch always hands the call over); a work item that awaits
  the executor always has a processing job; when the executor call is over the job is
  completed or failed and the work item is gone; and in every reachable state a job
  whose work item is over is completed or failed.
\<close>

theorem job_lifecycle:
  assumes possible: "run d (evs @ [e] @ later) initial_system \<noteq> None"
  shows "(job_after d evs i = None \<longrightarrow>
            job_after d (evs @ [e]) i = None
            \<or> job_after d (evs @ [e]) i = Some \<lparr>status = Pending, result = None, error = None\<rparr>)
       \<and> (job_after d evs i = Some j \<and> status j = Pending \<longrightarrow>
            job_after d (evs @ [e]) i = Some j
            \<or> job_after d (evs @ [e]) i = Some (j\<lparr>status := Processing\<rparr>))
       \<and> (job_after d evs i = Some j \<and> status j = Processing \<longrightarrow>
            job_after d (evs @ [e]) i = Some j
            \<or> (\<exists>p. job_after d (evs @ [e]) i
                    = Some \<lparr>status = Completed, result = Some p, error = None\<rparr>)
            \<or> (\<exists>m. job_after d (evs @ [e]) i
                    = Some \<lparr>status = Failed, result = None, error = Some m\<rparr>))
       \<and> (job_after d evs i = Some j \<and> (status j = Completed \<or> status j = Failed) \<longrightarrow>
            job_after d (evs @ [e] @ later) i = Some j)
       \<and> ((e = SubmitImage i ir \<and> HAS_IMAGE d) \<or> (e = SubmitVideo i vr \<and> HAS_VIDEO d) \<longrightarrow>
            job_after d (evs @ [e]) i = Some \<lparr>status = Pending, result = None, error = None\<rparr>)
       \<and> (e = Begin i \<longrightarrow> (\<exists>j'. job_after d (evs @ [e]) i = Some j' \<and> status j' = Processing))
       \<and> (task_after d evs i = Some (ImageAwaiting w c)
            \<or> task_after d evs i = Some (VideoAwaiting vw vc) \<longrightarrow>
            (\<exists>j'. job_after d evs i = Some j' \<and> status j' = Processing))
       \<and> (e = CompleteImage i out \<or> e = CompleteVideo i vout \<longrightarrow>
            task_after d (evs @ [e]) i = None
            \<and> (\<exists>j'. job_after d (evs @ [e]) i = Some j'
                  \<and> (status j' = Completed \<or> status j' = Failed)))
       \<and> (e = Begin i \<and> task_after d evs i = Some (ImageScheduled req) \<longrightarrow>
            task_after d (evs @ [e]) i = Some (ImageEntered req))
       \<and> (e = Begin i \<and> task_after d evs i = Some (VideoScheduled vreq) \<longrightarrow>
            task_after d (evs @ [e]) i = Some (VideoEntered vreq))
       \<and> (e = Dispatch i \<and> task_after d evs i = Some (ImageEntered req) \<longrightarrow>
            (\<exists>w'. task_after d (evs @ [e]) i = Some (ImageAwaiting w' (image_config d i req))
                  \<and> model_variant w' = ir_model req
                  \<and> job_after d (evs @ [e]) i
                      = Some \<lparr>status = Processing, result = None, error = None\<rparr>)
            \<or> (task_after d (evs @ [e]) i = None
                \<and> (\<exists>m. job_after d (evs @ [e]) i
                        = Some \<lparr>status = Failed, result = None, error = Some m\<rparr>)))
       \<and> (e = Dispatch i \<and> task_after d evs i = Some (VideoEntered vreq) \<longrightarrow>
            (\<exists>w'. task_after d (evs @ [e]) i = Some (VideoAwaiting w' (video_config d i vreq))
                  \<and> job_after d (evs @ [e]) i
                      = Some \<lparr>status = Processing, result = None, error = None\<rparr>))
       \<and> (task_after d evs i = None \<and> job_after d evs i = Some j \<longrightarrow>
            status j = Completed \<or> status j = Failed)
       \<and> (task_after d (evs @ [e]) i = None \<and> job_after d (evs @ [e]) i = Some j \<longrightarrow>
            status j = Completed \<or> status j = Failed)"
proof -
  from possible obtain s s' s'' where s: "run d evs initial_system = Some s"
    and s': "apply_event d e s = Some s'" and s'': "run d later s' = Some s''"
    by (auto simp: run_append split: option.splits)
  have inv: "job_inv s i"
    using s by (rule reachable_inv)
  have r1: "run d (evs @ [e]) initial_system = Some s'"
    using s s' by (simp add: run_append)
  have inv': "job_inv s' i"
    using r1 by (rule reachable_inv)
  have r2: "run d (evs @ [e] @ later) initial_system = Some s''"
    using s s' s'' by (simp add: run_append)
  have ja: "job_after d evs i = jobs s i" "task_after d evs i = tasks s i"
    "job_after d (evs @ [e]) i = jobs s' i" "task_after d (evs @ [e]) i = tasks s' i"
    "job_after d (evs @ [e] @ later) i = jobs s'' i"
    using s r1 r2 by (simp_all add: job_after_def task_after_def del: append_assoc)
  have keep: "jobs s'' i = Some j"
    if "jobs s i = Some j" "status j = Completed \<or> status j = Failed"
  proof -
    have "run d (e # later) s = Some s''" using s' s'' by simp
    then show ?thesis using inv that by (rule terminal_run)
  qed
  have over: "status j = Completed \<or> status j = Failed"
    if "tasks s i = None" "jobs s i = Some j"
    using inv that by (rule work_item_over)
  have over': "status j = Completed \<or> status j = Failed"
    if "tasks s' i = None" "jobs s' i = Some j"
    using inv' that by (rule work_item_over)
  have first: "(jobs s i = None \<longrightarrow>
            jobs s' i = None
            \<or> jobs s' i = Some \<lparr>status = Pending, result = None, error = None\<rparr>)
       \<and> (jobs s i = Some j \<and> status j = Pending \<longrightarrow>
            jobs s' i = Some j \<or> jobs s' i = Some (j\<lparr>status := Processing\<rparr>))
       \<and> (jobs s i = Some j \<and> status j = Processing \<longrightarrow>
            jobs s' i = Some j
            \<or> (\<exists>p. jobs s' i = Some \<lparr>status = Completed, result = Some p, error = None\<rparr>)
            \<or> (\<exists>m. jobs s' i = Some \<lparr>status = Failed, result = None, error = Some m\<rparr>))
       \<and> ((e = SubmitImage i ir \<and> HAS_IMAGE d) \<or> (e = SubmitVideo i vr \<and> HAS_VIDEO d) \<longrightarrow>
            jobs s' i = Some \<lparr>status = Pending, result = None, error = None\<rparr>)
       \<and> (e = Begin i \<longrightarrow> (\<exists>j'. jobs s' i = Some j' \<and> status j' = Processing))
       \<and> (tasks s i = Some (ImageAwaiting w c) \<or> tasks s i = Some (VideoAwaiting vw vc) \<longrightarrow>
            (\<exists>j'. jobs s i = Some j' \<and> status j' = Processing))
       \<and> (e = CompleteImage i out \<or> e = CompleteVideo i vout \<longrightarrow>
            tasks s' i = None
            \<and> (\<exists>j'. jobs s' i = Some j' \<and> (status j' = Completed \<or> status j' = Failed)))"
    by (rule step_lifecycle [OF inv s'])
  have second: "(e = Begin i \<and> tasks s i = Some (ImageScheduled req) \<longrightarrow>
            tasks s' i = Some (ImageEntered req))
       \<and> (e = Begin i \<and> tasks s i = Some (VideoScheduled vreq) \<longrightarrow>
            tasks s' i = Some (VideoEntered vreq))
       \<and> (e = Dispatch i \<and> tasks s i = Some (ImageEntered req) \<longrightarrow>
            (\<exists>w'. tasks s' i = Some (ImageAwaiting w' (image_config d i req))
                  \<and> model_variant w' = ir_model req
                  \<and> jobs s' i = Some \<lparr>status = Processing, result = None, error = None\<rparr>)
            \<or> (tasks s' i = None
                \<and> (\<exists>m. jobs s' i = Some \<lparr>status = Failed, result = None, error = Some m\<rparr>)))
       \<and> (e = Dispatch i \<and> tasks s i = Some (VideoEntered vreq) \<longrightarrow>
            (\<exists>w'. tasks s' i = Some (VideoAwaiting w' (video_config d i vreq))
                  \<and> jobs s' i = Some \<lparr>status = Processing, result = None, error = None\<rparr>))"
    by (rule step_work_item [OF inv s'])
  have keep_imp: "jobs s i = Some j \<and> (status j = Completed \<or> status j = Failed) \<longrightarrow>
            jobs s'' i = Some j"
    using keep by blast
  have over_imp: "tasks s i = None \<and> jobs s i = Some j \<longrightarrow>
            status j = Completed \<or> status j = Failed"
    using over by blast
  have over_imp': "tasks s' i = None \<and> jobs s' i = Some j \<longrightarrow>
            status j = Completed \<or> status j = Failed"
    using over' by blast
  show ?thesis
    unfolding ja using first second keep_imp over_imp over_imp'
    by (elim conjE, intro conjI) assumption+
qed

theorem job_lifecycle_witness:
  "job_after example_deployment [] ''j1'' = None
   \<and> job_after example_deployment [SubmitImage ''j1'' example_image_request] ''j1''
       = Some \<lparr>status = Pending, result = None, error = None\<rparr>
   \<and> job_after example_deployment [SubmitImage ''j1'' example_image_request, Begin ''j1''] ''j1''
       = Some \<lparr>status = Processing, result = None, error = None\<rparr>
   \<and> task_after example_deployment [SubmitImage ''j1'' example_image_request, Begin ''j1''] ''j1''
       = Some (ImageEntered example_image_request)
   \<and> task_after example_deployment example_start ''j1''
       = Some (ImageAwaiting example_wrapper
                 (image_config example_deployment ''j1'' example_image_request))
   \<and> job_after example_deployment example_start ''j1''
       = Some \<lparr>status = Processing, result = None, error = None\<rparr>
   \<and> job_after example_deployment
        (example_start @ [CompleteImage ''j1'' (Inr (Single ''outputs/j1.png''))]) ''j1''
       = Some \<lparr>status = Completed, result = Some ''outputs/j1.png'', error = None\<rparr>
   \<and> task_after example_deployment
        (example_start @ [CompleteImage ''j1'' (Inr (Single ''outputs/j1.png''))]) ''j1'' = None
   \<and> job_after example_deployment
        ((example_start @ [CompleteImage ''j1'' (Inr (Single ''outputs/j1.png''))])
           @ [UnloadModels] @ [SubmitVideo ''j2'' example_video_request, Begin ''j2'']) ''j1''
       = Some \<lparr>status = Completed, result = Some ''outputs/j1.png'', error = None\<rparr>
   \<and> task_after example_deployment
        [SubmitVideo ''j2'' example_video_request, Begin ''j2''] ''j2''
       = Some (VideoEntered example_video_request)
   \<and> task_after example_deployment example_video_start ''j2''
       = Some (VideoAwaiting example_video_wrapper
                 (video_config example_deployment ''j2'' example_video_request))
   \<and> job_after example_deployment example_video_start ''j2''
       = Some \<lparr>status = Processing, result = None, error = None\<rparr>
   \<and> task_after example_deployment
        [SubmitImage ''j3'' (example_image_request\<lparr>ir_model := ''turbo''\<rparr>), Begin ''j3'',
         Dispatch ''j3''] ''j3'' = None
   \<and> job_after example_deployment
        [SubmitImage ''j3'' (example_image_request\<lparr>ir_model := ''turbo''\<rparr>), Begin ''j3'',
         Dispatch ''j3''] ''j3''
       = Some \<lparr>status = Failed, result = None,
               error = Some ''Unknown model variant: turbo. Choose from: ['schnell', 'dev']''\<rparr>"
  using job_lifecycle [of example_deployment "[]" "SubmitImage ''j1'' example_image_request"
          "[]" "''j1''" "pending_job"
          example_image_request example_video_request
          example_wrapper "image_config example_deployment ''j1'' example_image_request"
          example_video_wrapper "video_config example_deployment ''j2'' example_video_request"
          "Inr (Single ''outputs/j1.png'')" "Inr ''outputs/j2.mp4''"
          "example_image_request" "example_video_request"]
        job_lifecycle [of example_deployment "[SubmitImage ''j1'' example_image_request]" "Begin ''j1''"
          "[]" "''j1''" "pending_job"
          example_image_request example_video_request
          example_wrapper "image_config example_deployment ''j1'' example_image_request"
          example_video_wrapper "video_config example_deployment ''j2'' example_video_request"
          "Inr (Single ''outputs/j1.png'')" "Inr ''outputs/j2.mp4''"
          "example_image_request" "example_video_request"]
        job_lifecycle [of example_deployment "[SubmitImage ''j1'' example_image_request, Begin ''j1'']" "Dispatch ''j1''"
          "[]" "''j1''" "pending_job\<lparr>status := Processing\<rparr>"
          example_image_request example_video_request
          example_wrapper "image_config example_deployment ''j1'' example_image_request"
          example_video_wrapper "video_config example_deployment ''j2'' example_video_request"
          "Inr (Single ''outputs/j1.png'')" "Inr ''outputs/j2.mp4''"
          "example_image_request" "example_video_request"]
        job_lifecycle [of example_deployment "example_start" "CompleteImage ''j1'' (Inr (Single ''outputs/j1.png''))"
          "[]" "''j1''" "pending_job\<lparr>status := Processing\<rparr>"
          example_image_request example_video_request
          example_wrapper "image_config example_deployment ''j1'' example_image_request"
          example_video_wrapper "video_config example_deployment ''j2'' example_video_request"
          "Inr (Single ''outputs/j1.png'')" "Inr ''outputs/j2.mp4''"
          "example_image_request" "example_video_request"]
        job_lifecycle [of example_deployment "example_start @ [CompleteImage ''j1'' (Inr (Single ''outputs/j1.png''))]" "UnloadModels"
          "[SubmitVideo ''j2'' example_video_request, Begin ''j2'']" "''j1''" "completed_job ''outputs/j1.png''"
          example_image_request example_video_request
          example_wrapper "image_config example_deployment ''j1'' example_image_request"
          example_video_wrapper "video_config example_deployment ''j2'' example_video_request"
          "Inr (Single ''outputs/j1.png'')" "Inr ''outputs/j2.mp4''"
          "example_image_request" "example_video_request"]
        job_lifecycle [of example_deployment "[SubmitVideo ''j2'' example_video_request]" "Begin ''j2''"
          "[]" "''j2''" "pending_job"
          example_image_request example_video_request
          example_wrapper "image_config example_deployment ''j1'' example_image_request"
          example_video_wrapper "video_config example_deployment ''j2'' example_video_request"
          "Inr (Single ''outputs/j1.png'')" "Inr ''outputs/j2.mp4''"
          "example_image_request" "example_video_request"]
        job_lifecycle [of example_deployment "[SubmitVideo ''j2'' example_video_request, Begin ''j2'']" "Dispatch ''j2''"
          "[]" "''j2''" "pending_job\<lparr>status := Processing\<rparr>"
          example_image_request example_video_request
          example_wrapper "image_config example_deployment ''j1'' example_image_request"
          example_video_wrapper "video_config example_deployment ''j2'' example_video_request"
          "Inr (Single ''outputs/j1.png'')" "Inr ''outputs/j2.mp4''"
          "example_image_request" "example_video_request"]
        job_lifecycle [of example_deployment "[SubmitImage ''j3'' (example_image_request\<lparr>ir_model := ''turbo''\<rparr>), Begin ''j3'']" "Dispatch ''j3''"
          "[]" "''j3''" "pending_job\<lparr>status := Processing\<rparr>"
          example_image_request example_video_request
          example_wrapper "image_config example_deployment ''j1'' example_image_request"
          example_video_wrapper "video_config example_deployment ''j2'' example_video_request"
          "Inr (Single ''outputs/j1.png'')" "Inr ''outputs/j2.mp4''"
          "example_image_request\<lparr>ir_model := ''turbo''\<rparr>" "example_video_request"]
  by (simp add: server_defs repr_str_list_def repr_str_def)

subsection \<open>Recording the result\<close>

text \<open>
  C2 (as the code has it). An image request with \<open>num_images = 2\<close>: the backend returns
  two paths, the job records the first one only.
\<close>

theorem only_first_path_recorded:
  "task_after example_deployment example_start ''j1''
     = Some (ImageAwaiting example_wrapper (image_config example_deployment ''j1'' example_image_request))
   \<and> fst (generate_image example_backend example_wrapper
          (image_config example_deployment ''j1'' example_image_request))
     = Inr (Many [''outputs/j1_0.png'', ''outputs/j1_1.png''])
   \<and> job_after example_deployment
        (example_start @ [CompleteImage ''j1'' (Inr (Many [''outputs/j1_0.png'', ''outputs/j1_1.png'']))])
        ''j1''
     = Some \<lparr>status = Completed, result = Some ''outputs/j1_0.png'', error = None\<rparr>"
proof -
  have "job_after example_deployment
        (example_start @ [CompleteImage ''j1'' (Inr (Many [''outputs/j1_0.png'', ''outputs/j1_1.png'']))])
        ''j1''
     = Some \<lparr>status = Completed, result = Some ''outputs/j1_0.png'', error = None\<rparr>"
    by (simp add: job_after_def example_start_def example_deployment_def example_image_request_def
        submit_image_def initial_system_def set_processing_def
        image_dispatch_def FluxWrapper_init_def FLUX_MODELS_def or_str_def detect_device_def
        get_optimal_dtype_def pending_job_def image_complete_def completed_job_def)
  with example_task example_generate show ?thesis by simp
qed

text \<open>
  C2, amended. When the executor call of a work item returns, the job becomes completed
  and its result is the path returned (a single path from the image backend, the path
  from the video backend) or, when the image backend returns a non-empty list of paths,
  the first path of the list.
\<close>

theorem work_item_records_result:
  "(task_after d evs i = Some (ImageAwaiting w c) \<and> fst (generate_image b w c) = Inr (Single p) \<longrightarrow>
      job_after d (evs @ [CompleteImage i (fst (generate_image b w c))]) i
        = Some \<lparr>status = Completed, result = Some p, error = None\<rparr>)
   \<and> (task_after d evs i = Some (ImageAwaiting w c)
        \<and> fst (generate_image b w c) = Inr (Many (p # ps)) \<longrightarrow>
      job_after d (evs @ [CompleteImage i (fst (generate_image b w c))]) i
        = Some \<lparr>status = Completed, result = Some p, error = None\<rparr>)
   \<and> (task_after d evs i = Some (VideoAwaiting vw vc) \<longrightarrow>
      job_after d (evs @ [CompleteVideo i (Inr p)]) i
        = Some \<lparr>status = Completed, result = Some p, error = None\<rparr>)"
  by (auto simp: job_after_def task_after_def run_append image_complete_def video_complete_def
        completed_job_def split: option.splits)

theorem work_item_records_result_witness:
  "job_after example_deployment
      ([SubmitImage ''j1'' (example_image_request\<lparr>ir_num_images := 1\<rparr>), Begin ''j1'', Dispatch ''j1'']
         @ [CompleteImage ''j1'' (fst (generate_image example_backend example_wrapper
              (image_config example_deployment ''j1'' (example_image_request\<lparr>ir_num_images := 1\<rparr>))))])
      ''j1''
     = Some \<lparr>status = Completed, result = Some ''outputs/j1.png'', error = None\<rparr>
   \<and> job_after example_deployment
      (example_start
         @ [CompleteImage ''j1'' (fst (generate_image example_backend example_wrapper
              (image_config example_deployment ''j1'' example_image_request)))])
      ''j1''
     = Some \<lparr>status = Completed, result = Some ''outputs/j1_0.png'', error = None\<rparr>
   \<and> job_after example_deployment
      (example_video_start @ [CompleteVideo ''j2'' (Inr ''outputs/j2.mp4'')]) ''j2''
     = Some \<lparr>status = Completed, result = Some ''outputs/j2.mp4'', error = None\<rparr>"
proof -
  have t1: "task_after example_deployment
      [SubmitImage ''j1'' (example_image_request\<lparr>ir_num_images := 1\<rparr>), Begin ''j1'', Dispatch ''j1'']
      ''j1''
     = Some (ImageAwaiting example_wrapper
         (image_config example_deployment ''j1'' (example_image_request\<lparr>ir_num_images := 1\<rparr>)))"
    by (simp add: server_defs)
  have t3: "task_after example_deployment example_video_start ''j2''
     = Some (VideoAwaiting example_video_wrapper
         (video_config example_deployment ''j2'' example_video_request))"
    by (simp add: server_defs)
  show ?thesis
    using work_item_records_result [of example_deployment
            "[SubmitImage ''j1'' (example_image_request\<lparr>ir_num_images := 1\<rparr>), Begin ''j1'', Dispatch ''j1'']"
            "''j1''" example_wrapper
            "image_config example_deployment ''j1'' (example_image_request\<lparr>ir_num_images := 1\<rparr>)"
            example_backend "''outputs/j1.png''" "[]"
            example_video_wrapper "video_config example_deployment ''j2'' example_video_request"]
          work_item_records_result [of example_deployment example_start
            "''j1''" example_wrapper
            "image_config example_deployment ''j1'' example_image_request"
            example_backend "''outputs/j1_0.png''" "[''outputs/j1_1.png'']"
            example_video_wrapper "video_config example_deployment ''j2'' example_video_request"]
          work_item_records_result [of example_deployment example_video_start
            "''j2''" example_wrapper
            "image_config example_deployment ''j1'' example_image_request"
            example_backend "''outputs/j2.mp4''" "[]"
            example_video_wrapper "video_config example_deployment ''j2'' example_video_request"]
          t1 t3 example_task example_generate example_generate_single
    by simp
qed

subsection \<open>Downloading a result\<close>

text \<open>
  C3. \<open>download_result\<close> fails with 404 "Job not found" for an unknown id; otherwise
  with 400 and the job's status when the job is not completed, whatever is on disk;
  otherwise with 404 "Generated file not found" when the recorded path is not on disk;
  otherwise it returns the recorded path. A completed job of a reachable state always
  has a recorded path.
\<close>

theorem download_result_order:
  "(jobs s i = None \<longrightarrow> download_result on_disk s i = Inl (HTTPException 404 ''Job not found''))
   \<and> (jobs s i = Some j \<and> status j \<noteq> Completed \<longrightarrow>
        download_result on_disk s i
          = Inl (HTTPException 400 (''Job status: '' @ status_str (status j))))
   \<and> (jobs s i = Some j \<and> status j = Completed \<and> result j = Some p \<and> \<not> on_disk p \<longrightarrow>
        download_result on_disk s i = Inl (HTTPException 404 ''Generated file not found''))
   \<and> (jobs s i = Some j \<and> status j = Completed \<and> result j = Some p \<and> on_disk p \<longrightarrow>
        download_result on_disk s i = Inr p)
   \<and> (job_after d evs i = Some j \<and> status j = Completed \<longrightarrow> result j \<noteq> None)"
proof -
  have "result j \<noteq> None" if "job_after d evs i = Some j" "status j = Completed"
  proof -
    from that(1) obtain s0 where "run d evs initial_system = Some s0" "jobs s0 i = Some j"
      by (auto simp: job_after_def split: option.splits)
    then show ?thesis
      using completed_has_result [of s0 i j] reachable_inv [of d evs s0 i] that(2) by simp
  qed
  then show ?thesis
    by (auto simp: download_result_def)
qed

theorem download_result_order_witness:
  "download_result (\<lambda>p. True) example_jobs ''j0'' = Inl (HTTPException 404 ''Job not found'')
   \<and> download_result (\<lambda>p. False) example_jobs ''j2''
       = Inl (HTTPException 400 ''Job status: pending'')
   \<and> download_result (\<lambda>p. False) example_jobs ''j1''
       = Inl (HTTPException 404 ''Generated file not found'')
   \<and> download_result (\<lambda>p. True) example_jobs ''j1'' = Inr ''outputs/j1.png''
   \<and> job_after example_deployment
        (example_start @ [CompleteImage ''j1'' (Inr (Single ''outputs/j1.png''))]) ''j1''
       = Some (completed_job ''outputs/j1.png'')
   \<and> result (completed_job ''outputs/j1.png'') \<noteq> None"
  using download_result_order [of example_jobs "''j0''" "\<lambda>p. True" pending_job "''x''"
          example_deployment "[]"]
        download_result_order [of example_jobs "''j2''" "\<lambda>p. False" pending_job "''x''"
          example_deployment "[]"]
        download_result_order [of example_jobs "''j1''" "\<lambda>p. False"
          "completed_job ''outputs/j1.png''" "''outputs/j1.png''"
          example_deployment
          "example_start @ [CompleteImage ''j1'' (Inr (Single ''outputs/j1.png''))]"]
        download_result_order [of example_jobs "''j1''" "\<lambda>p. True"
          "completed_job ''outputs/j1.png''" "''outputs/j1.png''"
          example_deployment
          "example_start @ [CompleteImage ''j1'' (Inr (Single ''outputs/j1.png''))]"]
  by (simp add: server_defs example_jobs_def)

subsection \<open>Variant policy of the image backend\<close>

text \<open>
  C6. \<open>generate_image\<close> invokes inference with the overridden arguments: once the
  pipeline is loaded, whatever the inference call raises at the arguments of
  \<open>pipeline_call\<close> is raised by \<open>generate_image\<close>, and the inference call is
  consulted at no other arguments. For the schnell variant these arguments carry the
  minimum of the requested steps and 4 and guidance 0.0; for the dev variant the maximum
  of the requested steps and 20 and the maximum of the requested guidance and 3.5; the
  other arguments are those of the configuration.
\<close>

theorem generate_image_variant_overrides:
  "generate_image (b\<lparr>run_pipeline := f\<rparr>) w c
     = generate_image (b\<lparr>run_pipeline := \<lambda>_. f (pipeline_call w c)\<rparr>) w c
   \<and> arg_num_inference_steps (pipeline_call (w\<lparr>model_variant := ''schnell''\<rparr>) c)
       = min (num_inference_steps c) 4
   \<and> arg_guidance_scale (pipeline_call (w\<lparr>model_variant := ''schnell''\<rparr>) c) = 0
   \<and> arg_num_inference_steps (pipeline_call (w\<lparr>model_variant := ''dev''\<rparr>) c)
       = max (num_inference_steps c) 20
   \<and> arg_guidance_scale (pipeline_call (w\<lparr>model_variant := ''dev''\<rparr>) c)
       = max (guidance_scale c) 3.5
   \<and> (fst (load_pipeline b w) = None \<and> run_pipeline b (pipeline_call w c) = Inl e \<longrightarrow>
        fst (generate_image b w c) = Inl e)
   \<and> (fst (load_pipeline b w) = None \<and> model_variant w = ''schnell''
        \<and> run_pipeline b
             \<lparr>arg_prompt = prompt c, arg_width = width c, arg_height = height c,
              arg_num_inference_steps = min (num_inference_steps c) 4,
              arg_guidance_scale = 0,
              arg_generator_seed = seed c, arg_num_images_per_prompt = num_images c\<rparr> = Inl e
        \<longrightarrow> fst (generate_image b w c) = Inl e)
   \<and> (fst (load_pipeline b w) = None \<and> model_variant w = ''dev''
        \<and> run_pipeline b
             \<lparr>arg_prompt = prompt c, arg_width = width c, arg_height = height c,
              arg_num_inference_steps = max (num_inference_steps c) 20,
              arg_guidance_scale = max (guidance_scale c) 3.5,
              arg_generator_seed = seed c, arg_num_images_per_prompt = num_images c\<rparr> = Inl e
        \<longrightarrow> fst (generate_image b w c) = Inl e)"
proof -
  have lp: "load_pipeline (b\<lparr>run_pipeline := g\<rparr>) w = load_pipeline b w" for g
    by (simp add: load_pipeline_def split: option.splits)
  have pc: "pipeline_call (snd (load_pipeline b w)) c = pipeline_call w c"
    by (rule pipeline_call_variant) (rule load_pipeline_variant)
  have only: "generate_image (b\<lparr>run_pipeline := f\<rparr>) w c
     = generate_image (b\<lparr>run_pipeline := \<lambda>_. f (pipeline_call w c)\<rparr>) w c"
    using pc by (cases "load_pipeline b w")
      (simp add: generate_image_def lp split: option.splits sum.splits)
  have err: "fst (generate_image b w c) = Inl e"
    if "fst (load_pipeline b w) = None" "run_pipeline b (pipeline_call w c) = Inl e"
    using that by (rule generate_image_pipeline_error)
  have schnell: "fst (generate_image b w c) = Inl e"
    if "fst (load_pipeline b w) = None" "model_variant w = ''schnell''"
       "run_pipeline b
             \<lparr>arg_prompt = prompt c, arg_width = width c, arg_height = height c,
              arg_num_inference_steps = min (num_inference_steps c) 4,
              arg_guidance_scale = 0,
              arg_generator_seed = seed c, arg_num_images_per_prompt = num_images c\<rparr> = Inl e"
  proof -
    have "run_pipeline b (pipeline_call w c) = Inl e"
      using that(2,3) by (simp add: pipeline_call_def variant_params_def)
    with that(1) show ?thesis by (rule generate_image_pipeline_error)
  qed
  have dev: "fst (generate_image b w c) = Inl e"
    if "fst (load_pipeline b w) = None" "model_variant w = ''dev''"
       "run_pipeline b
             \<lparr>arg_prompt = prompt c, arg_width = width c, arg_height = height c,
              arg_num_inference_steps = max (num_inference_steps c) 20,
              arg_guidance_scale = max (guidance_scale c) 3.5,
              arg_generator_seed = seed c, arg_num_images_per_prompt = num_images c\<rparr> = Inl e"
  proof -
    have "run_pipeline b (pipeline_call w c) = Inl e"
      using that(2,3) by (simp add: pipeline_call_def variant_params_def)
    with that(1) show ?thesis by (rule generate_image_pipeline_error)
  qed
  have vals: "arg_num_inference_steps (pipeline_call (w\<lparr>model_variant := ''schnell''\<rparr>) c)
       = min (num_inference_steps c) 4
   \<and> arg_guidance_scale (pipeline_call (w\<lparr>model_variant := ''schnell''\<rparr>) c) = 0
   \<and> arg_num_inference_steps (pipeline_call (w\<lparr>model_variant := ''dev''\<rparr>) c)
       = max (num_inference_steps c) 20
   \<and> arg_guidance_scale (pipeline_call (w\<lparr>model_variant := ''dev''\<rparr>) c)
       = max (guidance_scale c) 3.5"
    by (simp add: pipeline_call_def variant_params_def)
  show ?thesis
    using only vals err schnell dev by blast
qed

theorem generate_image_variant_overrides_witness:
  "fst (generate_image (step_checking_backend 4 0) example_wrapper example_config)
     = Inl (BackendFailure ''inference failed'')
   \<and> fst (generate_image (step_checking_backend 20 3.5)
            (example_wrapper\<lparr>model_variant := ''dev''\<rparr>)
            (image_config example_deployment ''j1'' example_image_request))
     = Inl (BackendFailure ''inference failed'')
   \<and> fst (generate_image (step_checking_backend 50 7.5) example_wrapper example_config)
     = Inr (Many [''outputs/j1_0.png''])"
  using generate_image_variant_overrides [where b = "step_checking_backend 4 0"
          and f = "run_pipeline (step_checking_backend 4 0)" and w = example_wrapper
          and c = example_config and e = "BackendFailure ''inference failed''"]
        generate_image_variant_overrides [where b = "step_checking_backend 20 3.5"
          and f = "run_pipeline (step_checking_backend 20 3.5)"
          and w = "example_wrapper\<lparr>model_variant := ''dev''\<rparr>"
          and c = "image_config example_deployment ''j1'' example_image_request"
          and e = "BackendFailure ''inference failed''"]
  by (simp add: step_checking_backend_def example_backend_def example_wrapper_def
        example_config_def image_config_def example_deployment_def example_image_request_def
        load_pipeline_def generate_image_def pipeline_call_def variant_params_def
        image_path_def or_str_def splitext_def rfind_def skip_leading_dots.simps
        str_nat.simps digit_char_simps upt_conv_Cons)

subsection \<open>Output paths of the image backend\<close>

text \<open>
  C7. When the pipeline loads, the inference call returns as many images as were
  requested and every save succeeds: with \<open>num_images = 1\<close> and a configured
  (non-empty) output path, \<open>generate_image\<close> returns that single path; with
  \<open>num_images = N > 1\<close> it returns the list of the \<open>N\<close> paths
  \<open>name_i.ext\<close> for \<open>i = 0, ..., N - 1\<close> in this order, where \<open>(name, ext)\<close> is
  \<open>os.path.splitext\<close> of the base path (and \<open>.png\<close> stands in for an empty
  extension); the paths are pairwise distinct.
\<close>

theorem generate_image_paths:
  assumes load: "fst (load_pipeline b w) = None"
    and run: "run_pipeline b (pipeline_call w c) = Inr (nat (num_images c))"
    and save: "\<forall>p. image_save b p = None"
  shows "(num_images c = 1 \<and> output_path c = Some out \<and> out \<noteq> []
            \<longrightarrow> fst (generate_image b w c) = Inr (Single out))
       \<and> (1 < num_images c \<and> splitext (or_str (output_path c)
                (''output_'' @ seed_or_random (seed c))) = (name, ext)
            \<longrightarrow> (let paths = map (\<lambda>i. name @ ''_'' @ str_nat i @ (if ext = [] then ''.png'' else ext))
                               [0..<nat (num_images c)]
                 in fst (generate_image b w c) = Inr (Many paths)
                    \<and> length paths = nat (num_images c)
                    \<and> distinct paths
                    \<and> name @ ext = or_str (output_path c) (''output_'' @ seed_or_random (seed c))))"
proof -
  obtain w' where lw: "load_pipeline b w = (None, w')"
    using load by (cases "load_pipeline b w") simp
  have "model_variant w' = model_variant w"
    using load_pipeline_variant [of b w] lw by simp
  then have pc: "pipeline_call w' c = pipeline_call w c"
    by (rule pipeline_call_variant)
  have sv: "save_images (image_save b) ps = Inr ps" for ps
    using save by (rule save_images_all_ok)
  note [simp del] = save_images.simps
  have one: "fst (generate_image b w c) = Inr (Single out)"
    if "num_images c = 1" "output_path c = Some out" "out \<noteq> []"
    using that by (simp add: generate_image_def lw pc run sv image_path_def or_str_def)
  have many: "fst (generate_image b w c)
      = Inr (Many (map (\<lambda>i. name @ ''_'' @ str_nat i @ (if ext = [] then ''.png'' else ext))
                   [0..<nat (num_images c)]))"
    if "1 < num_images c"
       "splitext (or_str (output_path c) (''output_'' @ seed_or_random (seed c))) = (name, ext)"
    using that by (simp add: generate_image_def lw pc run sv image_path_def)
  show ?thesis
    using one many suffixed_paths_distinct splitext_append
    by (simp add: Let_def)
qed

theorem generate_image_paths_witness:
  "fst (generate_image example_backend example_wrapper
          (image_config example_deployment ''j1'' (example_image_request\<lparr>ir_num_images := 1\<rparr>)))
     = Inr (Single ''outputs/j1.png'')
   \<and> fst (generate_image example_backend example_wrapper
          (image_config example_deployment ''j1'' (example_image_request\<lparr>ir_num_images := 3\<rparr>)))
     = Inr (Many [''outputs/j1_0.png'', ''outputs/j1_1.png'', ''outputs/j1_2.png''])
   \<and> distinct [''outputs/j1_0.png'', ''outputs/j1_1.png'', ''outputs/j1_2.png'']"
  using generate_image_paths [of example_backend example_wrapper
          "image_config example_deployment ''j1'' (example_image_request\<lparr>ir_num_images := 1\<rparr>)"
          "''outputs/j1.png''" "''outputs/j1''" "''.png''"]
        generate_image_paths [of example_backend example_wrapper
          "image_config example_deployment ''j1'' (example_image_request\<lparr>ir_num_images := 3\<rparr>)"
          "''outputs/j1.png''" "''outputs/j1''" "''.png''"]
  by (simp add: example_backend_def example_wrapper_def image_config_def
        example_deployment_def example_image_request_def
        load_pipeline_def pipeline_call_def variant_params_def or_str_def
        splitext_def rfind_def skip_leading_dots.simps str_nat.simps digit_char_simps
        upt_conv_Cons)

subsection \<open>Construction of the backends\<close>

text \<open>
  C8 (as the code has it). The video backend is constructed with any identifier: an
  identifier that names no model still yields an instance.
\<close>

theorem video_backend_accepts_unknown_model:
  "LTXVideoWrapper_init \<lparr>cuda_available = False, mps_available = False, bf16_supported = False\<rparr>
     ''no-such-model'' None None True
   = Inr \<lparr>ltx_model_id = ''no-such-model'', ltx_device = ''cpu'', ltx_dtype = float32,
           ltx_enable_cpu_offload = True, text2video_loaded = False, img2video_loaded = False\<rparr>"
  by (simp add: LTXVideoWrapper_init_def or_str_def detect_device_def get_optimal_dtype_def)

text \<open>
  C8, amended. Constructing the image backend with a variant outside \<open>FLUX_MODELS\<close>
  fails at construction time with a ValueError whose message lists the valid variants,
  and no instance is created; a known variant yields an instance of that variant. The
  video backend validates nothing: every model identifier yields an instance.
\<close>

theorem backend_construction:
  "(variant \<notin> fst ` set FLUX_MODELS \<longrightarrow>
      FluxWrapper_init t variant device dt offload
        = Inl (ValueError (''Unknown model variant: '' @ variant
                 @ ''. Choose from: ['schnell', 'dev']'')))
   \<and> (variant \<in> fst ` set FLUX_MODELS \<longrightarrow>
        (\<exists>w. FluxWrapper_init t variant device dt offload = Inr w \<and> model_variant w = variant))
   \<and> (\<exists>v. LTXVideoWrapper_init t mid device dt offload = Inr v \<and> ltx_model_id v = mid)"
  by (auto simp: FluxWrapper_init_def LTXVideoWrapper_init_def FLUX_MODELS_def Let_def
        repr_str_list_def repr_str_def)

theorem backend_construction_witness:
  "''turbo'' \<notin> fst ` set FLUX_MODELS
   \<and> FluxWrapper_init \<lparr>cuda_available = False, mps_available = False, bf16_supported = False\<rparr>
        ''turbo'' None None True
       = Inl (ValueError ''Unknown model variant: turbo. Choose from: ['schnell', 'dev']'')
   \<and> ''dev'' \<in> fst ` set FLUX_MODELS
   \<and> (\<exists>w. FluxWrapper_init \<lparr>cuda_available = False, mps_available = False, bf16_supported = False\<rparr>
        ''dev'' None None True = Inr w \<and> model_variant w = ''dev'')"
  using backend_construction [of "''turbo''"
          "\<lparr>cuda_available = False, mps_available = False, bf16_supported = False\<rparr>"
          None None True "''x''"]
        backend_construction [of "''dev''"
          "\<lparr>cuda_available = False, mps_available = False, bf16_supported = False\<rparr>"
          None None True "''x''"]
  by (simp add: FLUX_MODELS_def)

subsection \<open>The completion marker\<close>

text \<open>
  C4. \<open>is_downloaded\<close> is true iff the model is in the catalog and the marker
  \<open>.download_complete\<close> exists in its directory, whatever else the directory holds;
  for a catalog model, \<open>download_model\<close> without \<open>force\<close> returns the model
  directory with the downloader, the files and the log of transfers untouched exactly
  when the marker is present; when it is absent (and the directory can be made) one
  transfer is attempted.
\<close>

theorem is_downloaded_marker:
  "is_downloaded dl fs mid
     = (\<exists>m. get_model_info mid = Some m \<and> fs (marker_of dl m mid) \<noteq> None)
   \<and> (get_model_info mid = Some m \<longrightarrow>
        (download_model tr dl w mid False = (Inr (model_dir_of dl m mid), dl, w))
          = (files w (marker_of dl m mid) \<noteq> None))
   \<and> (get_model_info mid = Some m \<and> files w (marker_of dl m mid) = None
        \<and> \<not> list_ex (is_file (files w)) (tl (prefixes (model_dir_of dl m mid))) \<longrightarrow>
        transfer_log (snd (snd (download_model tr dl w mid False)))
          = transfer_log w @ [(repo_id m, model_dir_of dl m mid)])"
proof -
  have a: "is_downloaded dl fs mid
     = (\<exists>m. get_model_info mid = Some m \<and> fs (marker_of dl m mid) \<noteq> None)"
    by (simp add: is_downloaded_def path_exists_def split: option.splits)
  have b: "(download_model tr dl w mid False = (Inr (model_dir_of dl m mid), dl, w))
          = (files w (marker_of dl m mid) \<noteq> None)" if g: "get_model_info mid = Some m"
  proof (cases "files w (marker_of dl m mid) = None")
    case False
    then show ?thesis
      using g by (simp add: download_model_def is_downloaded_def path_exists_def)
  next
    case True
    have "transfer_log (snd (snd (download_model tr dl w mid False))) \<noteq> transfer_log w
          \<or> isl (fst (download_model tr dl w mid False))"
      using g True
      by (auto simp: download_model_def is_downloaded_def path_exists_def download_sync_def
            Let_def split: sum.splits prod.splits option.splits)
    then have "download_model tr dl w mid False \<noteq> (Inr (model_dir_of dl m mid), dl, w)"
      by auto
    with True show ?thesis by simp
  qed
  have c: "transfer_log (snd (snd (download_model tr dl w mid False)))
          = transfer_log w @ [(repo_id m, model_dir_of dl m mid)]"
    if "get_model_info mid = Some m" "files w (marker_of dl m mid) = None"
       "\<not> list_ex (is_file (files w)) (tl (prefixes (model_dir_of dl m mid)))"
    using that
    by (auto simp: download_model_def is_downloaded_def path_exists_def download_sync_def
          mkdir_parents_def Let_def split: sum.splits prod.splits option.splits)
  show ?thesis using a b c by blast
qed


theorem is_downloaded_marker_witness:
  "\<not> is_downloaded example_downloader partial_files ''flux-dev''
   \<and> is_downloaded example_downloader complete_files ''flux-dev''
   \<and> download_model failing_transfer example_downloader
        \<lparr>files = complete_files, transfer_log = []\<rparr> ''flux-dev'' False
       = (Inr [''models'', ''image'', ''flux-dev''], example_downloader,
          \<lparr>files = complete_files, transfer_log = []\<rparr>)
   \<and> transfer_log (snd (snd (download_model failing_transfer example_downloader
        \<lparr>files = partial_files, transfer_log = []\<rparr> ''flux-dev'' False)))
       = [(''black-forest-labs/FLUX.1-dev'', [''models'', ''image'', ''flux-dev''])]"
  using is_downloaded_marker [of example_downloader partial_files "''flux-dev''"
          "AVAILABLE_MODELS ! 3" failing_transfer "\<lparr>files = partial_files, transfer_log = []\<rparr>"]
        is_downloaded_marker [of example_downloader complete_files "''flux-dev''"
          "AVAILABLE_MODELS ! 3" failing_transfer "\<lparr>files = complete_files, transfer_log = []\<rparr>"]
  by (simp add: get_model_info_def AVAILABLE_MODELS_def marker_of_def model_dir_of_def
        example_defs is_file_def prefixes_snoc [symmetric])

text \<open>
  C5 (as the code has it). A forced download of a complete model whose transfer fails
  leaves the earlier marker in place: \<open>is_downloaded\<close> is still true afterwards.
\<close>

theorem forced_download_failure_keeps_marker:
  "fst (download_model failing_transfer example_downloader
          \<lparr>files = complete_files, transfer_log = []\<rparr> ''flux-dev'' True)
     = Inl (BackendFailure ''connection reset'')
   \<and> is_downloaded
        (fst (snd (download_model failing_transfer example_downloader
                     \<lparr>files = complete_files, transfer_log = []\<rparr> ''flux-dev'' True)))
        (files (snd (snd (download_model failing_transfer example_downloader
                     \<lparr>files = complete_files, transfer_log = []\<rparr> ''flux-dev'' True))))
        ''flux-dev''"
  by (simp add: download_model_def is_downloaded_def get_model_info_def AVAILABLE_MODELS_def
        marker_of_def model_dir_of_def example_defs path_exists_def mkdir_parents_def
        is_file_def download_sync_def Let_def)


text \<open>
  C5, amended. When \<open>download_model\<close> attempts a transfer for a catalog model and the
  transfer leaves the marker path alone: if the transfer raises, \<open>download_model\<close>
  raises the same exception, writes no marker and leaves \<open>is_downloaded\<close> as it was
  before the call (false when no marker was present, and then the next call attempts
  the transfer again); if \<open>download_model\<close> returns,
  it returns the model directory and the marker holds the repository identifier; and
  the marker is only ever written after a transfer that did not raise.
\<close>

theorem download_model_marker:
  assumes cat: "get_model_info mid = Some m"
    and attempt: "force \<or> \<not> is_downloaded dl (files w) mid"
    and mk: "mkdir_parents (files w) (model_dir_of dl m mid) = Inr fs1"
    and tr: "tr (repo_id m) (model_dir_of dl m mid) fs1 = (r, fs2)"
    and dm: "download_model tr dl w mid force = (res, dl', w')"
  shows "(r = Some e \<and> fs2 (marker_of dl m mid) = fs1 (marker_of dl m mid) \<longrightarrow>
            res = Inl e
          \<and> files w' (marker_of dl m mid) = files w (marker_of dl m mid)
          \<and> is_downloaded dl' (files w') mid = is_downloaded dl (files w) mid)
       \<and> (r = Some e \<and> fs2 (marker_of dl m mid) = fs1 (marker_of dl m mid)
            \<and> files w (marker_of dl m mid) = None
            \<and> \<not> list_ex (is_file (files w')) (tl (prefixes (model_dir_of dl m mid))) \<longrightarrow>
            transfer_log (snd (snd (download_model tr' dl' w' mid False)))
              = transfer_log w' @ [(repo_id m, model_dir_of dl m mid)])
       \<and> (r = None \<and> res = Inr p \<longrightarrow>
            p = model_dir_of dl m mid
          \<and> files w' (marker_of dl m mid) = Some (File (repo_id m))
          \<and> is_downloaded dl' (files w') mid)
       \<and> (r = None \<and> res = Inl e \<longrightarrow> files w' = fs2)
       \<and> (files w' (marker_of dl m mid) \<noteq> fs2 (marker_of dl m mid) \<longrightarrow> r = None)"
proof -
  have nd: "\<not> (is_downloaded dl (files w) mid \<and> \<not> force)"
    using attempt by blast
  have md: "models_dir dl' = models_dir dl"
    using dm cat nd mk tr
    by (auto simp: download_model_def download_sync_def Let_def
          split: option.splits sum.splits)
  have dir: "model_dir_of dl' m mid = model_dir_of dl m mid"
    using md by (simp add: model_dir_of_def)
  have mo: "marker_of dl' m mid = marker_of dl m mid"
    using dir by (simp add: marker_of_def)
  have isd: "is_downloaded dl' fs mid = (fs (marker_of dl m mid) \<noteq> None)" for fs
    using cat mo by (simp add: is_downloaded_def path_exists_def)
  have isd0: "is_downloaded dl fs mid = (fs (marker_of dl m mid) \<noteq> None)" for fs
    using cat by (simp add: is_downloaded_def path_exists_def)
  have m1: "fs1 (marker_of dl m mid) = files w (marker_of dl m mid)"
    using mk by (rule mkdir_parents_marker)
  show ?thesis
  proof (cases r)
    case (Some e')
    then have res: "res = Inl e'" and fw: "files w' = fs2"
      using dm cat nd mk tr
      by (auto simp: download_model_def download_sync_def Let_def)
    have again: "transfer_log (snd (snd (download_model tr' dl' w' mid False)))
              = transfer_log w' @ [(repo_id m, model_dir_of dl m mid)]"
      if "fs2 (marker_of dl m mid) = fs1 (marker_of dl m mid)"
         "files w (marker_of dl m mid) = None"
         "\<not> list_ex (is_file (files w')) (tl (prefixes (model_dir_of dl m mid)))"
      using download_model_attempts [of mid m w' dl' tr' False] cat that fw m1
      by (simp add: dir mo)
    show ?thesis
      using Some res fw m1 again by (auto simp: isd isd0)
  next
    case None
    show ?thesis
    proof (cases "write_text fs2 (marker_of dl m mid) (repo_id m)")
      case (Inl e')
      then have "res = Inl e'" and "files w' = fs2"
        using dm cat nd mk tr None
        by (auto simp: download_model_def download_sync_def Let_def)
      with None show ?thesis by auto
    next
      case (Inr fs3)
      then have "res = Inr (model_dir_of dl m mid)" and "files w' = fs3"
        using dm cat nd mk tr None
        by (auto simp: download_model_def download_sync_def Let_def)
      moreover have "fs3 (marker_of dl m mid) = Some (File (repo_id m))"
        using Inr by (rule write_text_result)
      ultimately show ?thesis using None by (auto simp: isd)
    qed
  qed
qed

theorem download_model_marker_witness:
  "fst (download_model failing_transfer example_downloader
          \<lparr>files = partial_files, transfer_log = []\<rparr> ''flux-dev'' False)
     = Inl (BackendFailure ''connection reset'')
   \<and> \<not> is_downloaded example_downloader
        (files (snd (snd (download_model failing_transfer example_downloader
                     \<lparr>files = partial_files, transfer_log = []\<rparr> ''flux-dev'' False))))
        ''flux-dev''
   \<and> transfer_log (snd (snd (download_model succeeding_transfer
        (fst (snd (download_model failing_transfer example_downloader
                     \<lparr>files = partial_files, transfer_log = []\<rparr> ''flux-dev'' False)))
        (snd (snd (download_model failing_transfer example_downloader
                     \<lparr>files = partial_files, transfer_log = []\<rparr> ''flux-dev'' False)))
        ''flux-dev'' False)))
     = [(''black-forest-labs/FLUX.1-dev'', [''models'', ''image'', ''flux-dev'']),
        (''black-forest-labs/FLUX.1-dev'', [''models'', ''image'', ''flux-dev''])]
   \<and> fst (download_model succeeding_transfer example_downloader
          \<lparr>files = partial_files, transfer_log = []\<rparr> ''flux-dev'' False)
     = Inr [''models'', ''image'', ''flux-dev'']
   \<and> files (snd (snd (download_model succeeding_transfer example_downloader
                     \<lparr>files = partial_files, transfer_log = []\<rparr> ''flux-dev'' False)))
        [''models'', ''image'', ''flux-dev'', ''.download_complete'']
     = Some (File ''black-forest-labs/FLUX.1-dev'')"
  using download_model_marker [of "''flux-dev''" "AVAILABLE_MODELS ! 3" False example_downloader
          "\<lparr>files = partial_files, transfer_log = []\<rparr>" partial_files failing_transfer
          "Some (BackendFailure ''connection reset'')"
          "partial_files([''models'', ''image'', ''flux-dev'', ''model.safetensors''] \<mapsto> File ''partial'')"
          "fst (download_model failing_transfer example_downloader
                 \<lparr>files = partial_files, transfer_log = []\<rparr> ''flux-dev'' False)"
          "fst (snd (download_model failing_transfer example_downloader
                 \<lparr>files = partial_files, transfer_log = []\<rparr> ''flux-dev'' False))"
          "snd (snd (download_model failing_transfer example_downloader
                 \<lparr>files = partial_files, transfer_log = []\<rparr> ''flux-dev'' False))"
          "BackendFailure ''connection reset''" succeeding_transfer "[]"]
        download_model_marker [of "''flux-dev''" "AVAILABLE_MODELS ! 3" False example_downloader
          "\<lparr>files = partial_files, transfer_log = []\<rparr>" partial_files succeeding_transfer
          None
          "partial_files([''models'', ''image'', ''flux-dev'', ''model.safetensors''] \<mapsto> File ''weights'')"
          "fst (download_model succeeding_transfer example_downloader
                 \<lparr>files = partial_files, transfer_log = []\<rparr> ''flux-dev'' False)"
          "fst (snd (download_model succeeding_transfer example_downloader
                 \<lparr>files = partial_files, transfer_log = []\<rparr> ''flux-dev'' False))"
          "snd (snd (download_model succeeding_transfer example_downloader
                 \<lparr>files = partial_files, transfer_log = []\<rparr> ''flux-dev'' False))"
          "BackendFailure ''x''" succeeding_transfer "[''models'', ''image'', ''flux-dev'']"]
  by (simp add: download_model_def is_downloaded_def get_model_info_def AVAILABLE_MODELS_def
        marker_of_def model_dir_of_def example_defs path_exists_def mkdir_parents_def
        is_file_def download_sync_def write_text_def Let_def fun_eq_iff)

subsection \<open>Removing a model\<close>

text \<open>
  C10. If \<open>cleanup\<close> returns true, \<open>is_downloaded\<close> is false on the files it
  leaves; \<open>cleanup\<close> returns false and leaves the files unchanged when the id is not
  in the catalog or the model directory does not exist; and it does return true for a
  catalog model whose directory exists.
\<close>

theorem cleanup_then_not_downloaded:
  "(cleanup dl fs mid = (Inr True, fs') \<longrightarrow> \<not> is_downloaded dl fs' mid)
   \<and> (get_model_info mid = None
        \<or> (\<exists>m. get_model_info mid = Some m \<and> fs (model_dir_of dl m mid) = None)
       \<longrightarrow> cleanup dl fs mid = (Inr False, fs))
   \<and> (get_model_info mid = Some m \<and> fs (model_dir_of dl m mid) = Some Dir
       \<longrightarrow> fst (cleanup dl fs mid) = Inr True)"
proof -
  have a: "\<not> is_downloaded dl fs' mid" if "cleanup dl fs mid = (Inr True, fs')"
  proof (cases "get_model_info mid")
    case None
    then show ?thesis by (simp add: is_downloaded_def)
  next
    case (Some m)
    then have "rmtree fs (model_dir_of dl m mid) = Inr fs'"
      using that by (auto simp: cleanup_def split: if_splits sum.splits)
    then have "fs' (marker_of dl m mid) = None"
      using model_dir_prefix_marker [of dl m mid]
      by (auto simp: rmtree_def split: option.splits node.splits)
    with Some show ?thesis by (simp add: is_downloaded_def path_exists_def)
  qed
  have b: "cleanup dl fs mid = (Inr False, fs)"
    if "get_model_info mid = None
        \<or> (\<exists>m. get_model_info mid = Some m \<and> fs (model_dir_of dl m mid) = None)"
    using that by (auto simp: cleanup_def path_exists_def)
  have c: "fst (cleanup dl fs mid) = Inr True"
    if "get_model_info mid = Some m" "fs (model_dir_of dl m mid) = Some Dir"
    using that by (simp add: cleanup_def path_exists_def rmtree_def)
  show ?thesis using a b c by blast
qed

theorem cleanup_then_not_downloaded_witness:
  "is_downloaded example_downloader complete_files ''flux-dev''
   \<and> fst (cleanup example_downloader complete_files ''flux-dev'') = Inr True
   \<and> \<not> is_downloaded example_downloader
         (snd (cleanup example_downloader complete_files ''flux-dev'')) ''flux-dev''
   \<and> cleanup example_downloader complete_files ''flux-pro'' = (Inr False, complete_files)
   \<and> cleanup example_downloader complete_files ''ltx-video-full'' = (Inr False, complete_files)"
  using cleanup_then_not_downloaded [of example_downloader complete_files "''flux-dev''"
          "snd (cleanup example_downloader complete_files ''flux-dev'')" "AVAILABLE_MODELS ! 3"]
        cleanup_then_not_downloaded [of example_downloader complete_files "''flux-pro''"
          "complete_files" "AVAILABLE_MODELS ! 3"]
        cleanup_then_not_downloaded [of example_downloader complete_files "''ltx-video-full''"
          "complete_files" "AVAILABLE_MODELS ! 1"]
  by (simp add: get_model_info_def AVAILABLE_MODELS_def marker_of_def model_dir_of_def
        example_defs is_downloaded_def path_exists_def cleanup_def rmtree_def)

subsection \<open>Progress percentage\<close>

text \<open>
  C9 (as the code has it). The claim says the percentage equals downloaded bytes divided
  by total bytes. The property returns that quotient times 100: one byte of two is 50,
  not one half.
\<close>

theorem percentage_not_plain_quotient:
  "percentage \<lparr>model_id = ''flux-dev'', total_bytes = 2, downloaded_bytes = 1,
               current_file = '''', files_completed = 0, files_total = 1\<rparr> = Inr 50
   \<and> (50::real) \<noteq> real_of_int 1 / real_of_int 2"
  by (simp add: percentage_def truediv_def)

text \<open>
  C9, amended. For every DownloadProgress value the percentage is 100 times downloaded
  bytes divided by total bytes, it is 0 when total bytes is 0, and the computation never
  raises ZeroDivisionError.
\<close>

theorem percentage_value:
  "percentage p =
     Inr (if total_bytes p = 0 then 0
          else real_of_int (downloaded_bytes p) / real_of_int (total_bytes p) * 100)
   \<and> percentage p \<noteq> Inl ZeroDivisionError"
  by (simp add: percentage_def truediv_def)

end
